theory Spec2Isabelle
  imports Main "HOL-Library.Word"
begin

unbundle bit_operations_syntax

section \<open>The Java binding of the Unicorn engine (bindings/java/unicorn\_Unicorn.c)\<close>

text \<open>
  The file is glue between three parties: the Java virtual machine (reached through
  \<^verbatim>\<open>JNIEnv\<close>), the C library (\<^verbatim>\<open>calloc\<close>, \<^verbatim>\<open>free\<close>) and the native engine
  (\<^verbatim>\<open>uc_*\<close>). The model threads one explicit \<open>world\<close> through every function:
  the pending exception of the JNI environment, the \<^verbatim>\<open>hook_wrapper\<close> records on the C
  heap, the static class caches of the file, the caller's Java arrays, and a trace of
  every call made to one of the three parties. What the parties answer is not decided by
  this file, so the world also carries their answers: \<open>jni_fate\<close> lists, in call order,
  whether each fallible JVM or libc call succeeds, and \<open>uc_fate\<close> lists the engine's
  replies. A theorem for all worlds is a theorem for every behaviour of the parties.
\<close>

subsection \<open>Values crossing the boundary\<close>

type_synonym jint = "32 word"
type_synonym jlong = "64 word"

text \<open>A JNI reference or a C pointer: \<open>None\<close> is \<^verbatim>\<open>NULL\<close>. A \<^verbatim>\<open>hook_wrapper *\<close> cast to
  \<^verbatim>\<open>jlong\<close> and back is the same address, so the handle Java holds is modelled as the
  pointer itself.\<close>

type_synonym jobject = "nat option"
type_synonym pointer = "nat option"

text \<open>\<^verbatim>\<open>uc_err\<close>, an enum of unicorn.h: the three members the binding names, and the rest.\<close>

datatype uc_err = UC_ERR_OK | UC_ERR_HOOK | UC_ERR_INSN_INVALID | UC_ERR_OTHER nat

datatype jthrowable =
    UnicornException string
  | OutOfMemoryError string
  | NoClassDefFoundError
  | NoSuchMethodError
  | NegativeArraySizeException
  | HostThrowable nat

text \<open>The native structs the binding reads or fills.\<close>

record uc_x86_mmr =
  selector :: "16 word"
  base :: "64 word"
  limit :: "32 word"
  flags :: "32 word"

record uc_arm64_cp_reg =
  crn :: "32 word"
  crm :: "32 word"
  op0 :: "32 word"
  op1 :: "32 word"
  op2 :: "32 word"
  cp_val :: "64 word"

record uc_tb =
  pc :: "64 word"
  icount :: "16 word"
  tb_size :: "16 word"

record uc_mem_region =
  region_begin :: "64 word"
  region_end :: "64 word"
  region_perms :: "32 word"

record uc_tlb_entry =
  paddr :: "64 word"
  perms :: "32 word"

text \<open>Java values handed to a constructor or a callback, and the descriptor objects
  the binding builds.\<close>

datatype jvalue =
    JShort "16 word"
  | JInt jint
  | JLong jlong
  | JRef jobject
  | X86_MMR jlong jint jint "16 word"
  | Arm64_CP jint jint jint jint jint jlong
  | TranslationBlock jlong jint jint
  | MemRegion jlong jlong jint

datatype jclass = C_X86_MMR | C_Arm64_CP | C_TranslationBlock | C_MemRegion

text \<open>The fifteen trampolines (the function pointers handed to the engine).\<close>

datatype trampoline =
    cb_hookintr_p | cb_insn_in_p | cb_insn_out_p | cb_insn_syscall_p | cb_insn_cpuid_p
  | cb_insn_sys_p | cb_hookcode_p | cb_eventmem_p | cb_hookmem_p | cb_hookinsn_invalid_p
  | cb_edge_gen_p | cb_tcg_op_2_p | cb_tlbevent_p | cb_mmio_read_p | cb_mmio_write_p

text \<open>\<^verbatim>\<open>struct hook_wrapper\<close>. A resolved \<^verbatim>\<open>jmethodID\<close> is the method name and signature
  it was resolved for.\<close>

record hook_wrapper =
  uc_hh :: "64 word"
  unicorn :: jobject
  hook_obj :: jobject
  hook_meth :: "(string \<times> string) option"
  user_data :: jobject

subsection \<open>The world\<close>

text \<open>Calls into the engine. Hook registration, removal and MMIO mapping are recorded
  with the arguments the properties below are about; every other engine function by its name.\<close>

datatype uc_fn =
    Uc string
  | Uc_hook_add pointer jint trampoline jlong jlong "jint list"
  | Uc_hook_del "64 word"
  | Uc_mmio_map "trampoline option" pointer "trampoline option" pointer

datatype event =
    Allocated nat
  | Freed nat
  | RefCreated nat
  | RefDeleted nat
  | Thrown jthrowable
  | HostCalled jobject "(string \<times> string) option" "jvalue list"
  | Native uc_fn uc_err
  | Fault

text \<open>What one engine call leaves behind: its status, what it stored through its
  out-pointers (a scalar, a buffer of bytes or of 64-bit words, a struct), and the
  exception, if any, that the callbacks the engine ran during the call left pending in
  the JVM. The engine runs the trampolines from inside its own calls (\<^verbatim>\<open>uc_emu_start\<close>
  above all); \<open>hookErrorCheck\<close> leaves a callback's exception pending and only asks the
  engine to stop, so the engine call returns with that exception still pending, whatever
  its status. Which calls run callbacks is the engine's business: the model lets every
  reply carry one.\<close>

record uc_reply =
  status :: uc_err
  out_val :: "64 word"
  out_bytes :: "8 word list"
  out_longs :: "64 word list"
  out_mmr :: uc_x86_mmr
  out_tb :: uc_tb
  out_regions :: "uc_mem_region list"
  hook_thrown :: "jthrowable option"

record class_cache =
  clazz :: jobject
  clazzInit :: bool

record world =
  pending :: "jthrowable option"
  trace :: "event list"
  heap :: "nat \<rightharpoonup> hook_wrapper"
  brk :: nat
  next_gref :: nat
  jni_fate :: "bool list"
  uc_fate :: "uc_reply list"
  uc_strerror :: "uc_err \<Rightarrow> string"
  statics :: "jclass \<Rightarrow> class_cache"
  byte_arrays :: "nat \<Rightarrow> 8 word list"
  long_arrays :: "nat \<Rightarrow> 64 word list"

text \<open>The next fallible JVM or libc call: it succeeds unless the world says otherwise.\<close>

definition env_ok :: "world \<Rightarrow> bool \<times> world" where
  "env_ok w = (case jni_fate w of [] \<Rightarrow> (True, w) | b # bs \<Rightarrow> (b, w\<lparr>jni_fate := bs\<rparr>))"

definition log :: "event \<Rightarrow> world \<Rightarrow> world" where
  "log e w = w\<lparr>trace := trace w @ [e]\<rparr>"

definition ok_reply :: uc_reply where
  "ok_reply = \<lparr>status = UC_ERR_OK, out_val = 0, out_bytes = [], out_longs = [],
     out_mmr = \<lparr>selector = 0, base = 0, limit = 0, flags = 0\<rparr>,
     out_tb = \<lparr>pc = 0, icount = 0, tb_size = 0\<rparr>, out_regions = [],
     hook_thrown = None\<rparr>"

definition next_reply :: "world \<Rightarrow> uc_reply \<times> world" where
  "next_reply w = (case uc_fate w of [] \<Rightarrow> (ok_reply, w) | r # rs \<Rightarrow> (r, w\<lparr>uc_fate := rs\<rparr>))"

text \<open>A call of an engine function: the engine replies, an exception its callbacks left
  behind is pending, and the call is on the trace.\<close>

definition uc_call :: "uc_fn \<Rightarrow> world \<Rightarrow> uc_reply \<times> world" where
  "uc_call f w =
     (case next_reply w of
        (r, w1) \<Rightarrow>
          (r, log (Native f (status r))
                (case hook_thrown r of None \<Rightarrow> w1 | Some t \<Rightarrow> w1\<lparr>pending := Some t\<rparr>)))"

subsection \<open>JNI and libc primitives\<close>

text \<open>\<^verbatim>\<open>ThrowNew\<close>: the new exception becomes the pending one.\<close>

definition ThrowNew :: "jthrowable \<Rightarrow> world \<Rightarrow> world" where
  "ThrowNew e w = log (Thrown e) (w\<lparr>pending := Some e\<rparr>)"

text \<open>An exception the JVM itself raises inside a failing JNI call.\<close>

definition jvm_raise :: "jthrowable \<Rightarrow> world \<Rightarrow> world" where
  "jvm_raise e w = w\<lparr>pending := Some e\<rparr>"

definition ExceptionCheck :: "world \<Rightarrow> bool" where
  "ExceptionCheck w = (pending w \<noteq> None)"

text \<open>\<^verbatim>\<open>NewGlobalRef\<close>: \<^verbatim>\<open>NULL\<close> for a \<^verbatim>\<open>NULL\<close> argument or when the JVM is out of
  memory (no exception is raised then), a fresh global reference otherwise.\<close>

definition NewGlobalRef :: "jobject \<Rightarrow> world \<Rightarrow> jobject \<times> world" where
  "NewGlobalRef obj w =
     (case obj of
        None \<Rightarrow> (None, w)
      | Some _ \<Rightarrow>
          (case env_ok w of
             (False, w1) \<Rightarrow> (None, w1)
           | (True, w1) \<Rightarrow>
               (Some (next_gref w1),
                log (RefCreated (next_gref w1)) (w1\<lparr>next_gref := Suc (next_gref w1)\<rparr>))))"

definition DeleteGlobalRef :: "nat \<Rightarrow> world \<Rightarrow> world" where
  "DeleteGlobalRef r w = log (RefDeleted r) w"

text \<open>\<^verbatim>\<open>FindClass\<close>, \<^verbatim>\<open>GetMethodID\<close>, \<^verbatim>\<open>NewObject\<close> and the array constructors raise
  in the JVM when they fail; \<^verbatim>\<open>GetObjectClass\<close> only returns \<^verbatim>\<open>NULL\<close>.\<close>

definition FindClass :: "world \<Rightarrow> bool \<times> world" where
  "FindClass w = (case env_ok w of
      (False, w1) \<Rightarrow> (False, jvm_raise NoClassDefFoundError w1)
    | (True, w1) \<Rightarrow> (True, w1))"

definition GetMethodID :: "string \<Rightarrow> string \<Rightarrow> world \<Rightarrow> (string \<times> string) option \<times> world" where
  "GetMethodID name sig w = (case env_ok w of
      (False, w1) \<Rightarrow> (None, jvm_raise NoSuchMethodError w1)
    | (True, w1) \<Rightarrow> (Some (name, sig), w1))"

definition GetObjectClass :: "world \<Rightarrow> bool \<times> world" where
  "GetObjectClass w = env_ok w"

definition NewObject :: "jvalue \<Rightarrow> world \<Rightarrow> jvalue option \<times> world" where
  "NewObject v w = (case env_ok w of
      (False, w1) \<Rightarrow> (None, jvm_raise (OutOfMemoryError ''Java heap space'') w1)
    | (True, w1) \<Rightarrow> (Some v, w1))"

definition NewArray :: "world \<Rightarrow> bool \<times> world" where
  "NewArray w = (case env_ok w of
      (False, w1) \<Rightarrow> (False, jvm_raise (OutOfMemoryError ''Java heap space'') w1)
    | (True, w1) \<Rightarrow> (True, w1))"

text \<open>Array creation with a length cast to \<^verbatim>\<open>jsize\<close>, a signed 32-bit integer: a
  negative length is refused with \<^verbatim>\<open>NegativeArraySizeException\<close>.\<close>

definition NewArray_jsize :: "32 word \<Rightarrow> world \<Rightarrow> bool \<times> world" where
  "NewArray_jsize n w =
     (if n <s 0 then (False, jvm_raise NegativeArraySizeException w) else NewArray w)"

text \<open>\<^verbatim>\<open>calloc(1, sizeof(struct hook_wrapper))\<close>: a fresh zeroed record, or \<^verbatim>\<open>NULL\<close>.\<close>

definition zeroed :: hook_wrapper where
  "zeroed = \<lparr>uc_hh = 0, unicorn = None, hook_obj = None, hook_meth = None, user_data = None\<rparr>"

definition calloc :: "world \<Rightarrow> pointer \<times> world" where
  "calloc w = (case env_ok w of
      (False, w1) \<Rightarrow> (None, w1)
    | (True, w1) \<Rightarrow>
        (Some (Suc (brk w1)),
         log (Allocated (Suc (brk w1)))
           (w1\<lparr>brk := Suc (brk w1), heap := (heap w1)(Suc (brk w1) \<mapsto> zeroed)\<rparr>)))"

definition free :: "nat \<Rightarrow> world \<Rightarrow> world" where
  "free p w = log (Freed p) (w\<lparr>heap := (heap w)(p := None)\<rparr>)"

subsection \<open>Raising failures (lines 39--56)\<close>

text \<open>The class lookups of the three functions are used unchecked by the source; the
  binding's own exception classes are taken to resolve.\<close>

definition throwUnicornException :: "uc_err \<Rightarrow> world \<Rightarrow> world" where
  "throwUnicornException err w = ThrowNew (UnicornException (uc_strerror w err)) w"

definition throwCustomUnicornException :: "string \<Rightarrow> world \<Rightarrow> world" where
  "throwCustomUnicornException msg w = ThrowNew (UnicornException msg) w"

definition throwOutOfMemoryError :: "string \<Rightarrow> world \<Rightarrow> world" where
  "throwOutOfMemoryError message w = ThrowNew (OutOfMemoryError message) w"

subsection \<open>Descriptor objects (lines 58--140)\<close>

text \<open>Each of \<^verbatim>\<open>makeX86_MMR\<close>, \<^verbatim>\<open>makeArm64_CP\<close>, \<^verbatim>\<open>makeTranslationBlock\<close> and
  \<^verbatim>\<open>_mem_regions\<close> opens with the same two blocks over its own pair of static
  variables: resolve and pin the class unless cached, then resolve the constructor
  unless cached. \<open>static_ctor\<close> is that prologue; \<open>False\<close> is its \<^verbatim>\<open>return NULL\<close>.\<close>

definition set_clazz :: "jclass \<Rightarrow> jobject \<Rightarrow> world \<Rightarrow> world" where
  "set_clazz c r w = w\<lparr>statics := (statics w)(c := (statics w c)\<lparr>clazz := r\<rparr>)\<rparr>"

definition set_clazzInit :: "jclass \<Rightarrow> bool \<Rightarrow> world \<Rightarrow> world" where
  "set_clazzInit c b w = w\<lparr>statics := (statics w)(c := (statics w c)\<lparr>clazzInit := b\<rparr>)\<rparr>"

definition static_clazz :: "jclass \<Rightarrow> world \<Rightarrow> bool \<times> world" where
  "static_clazz c w =
     (if clazz (statics w c) = None then
        (case FindClass w of
           (False, w1) \<Rightarrow> (False, set_clazz c None w1)
         | (True, w1) \<Rightarrow>
             (case NewGlobalRef (Some 0) w1 of
                (None, w2) \<Rightarrow> (False, set_clazz c None w2)
              | (Some r, w2) \<Rightarrow> (True, set_clazz c (Some r) w2)))
      else (True, w))"

definition static_ctor :: "jclass \<Rightarrow> string \<Rightarrow> world \<Rightarrow> bool \<times> world" where
  "static_ctor c sig w =
     (case static_clazz c w of
        (False, w1) \<Rightarrow> (False, w1)
      | (True, w1) \<Rightarrow>
          (if \<not> clazzInit (statics w1 c) then
             (case GetMethodID ''<init>'' sig w1 of
                (None, w2) \<Rightarrow> (False, set_clazzInit c False w2)
              | (Some m, w2) \<Rightarrow> (True, set_clazzInit c True w2))
           else (True, w1)))"

definition makeX86_MMR :: "uc_x86_mmr option \<Rightarrow> world \<Rightarrow> jvalue option \<times> world" where
  "makeX86_MMR mmr w =
     (case mmr of
        None \<Rightarrow> (None, w)
      | Some m \<Rightarrow>
          (case static_ctor C_X86_MMR ''(JIIS)V'' w of
             (False, w1) \<Rightarrow> (None, w1)
           | (True, w1) \<Rightarrow> NewObject (X86_MMR (base m) (limit m) (flags m) (selector m)) w1))"

definition makeArm64_CP :: "uc_arm64_cp_reg option \<Rightarrow> world \<Rightarrow> jvalue option \<times> world" where
  "makeArm64_CP cp_reg w =
     (case cp_reg of
        None \<Rightarrow> (None, w)
      | Some r \<Rightarrow>
          (case static_ctor C_Arm64_CP ''(IIIIIJ)V'' w of
             (False, w1) \<Rightarrow> (None, w1)
           | (True, w1) \<Rightarrow>
               NewObject (Arm64_CP (crn r) (crm r) (op0 r) (op1 r) (op2 r) (cp_val r)) w1))"

definition makeTranslationBlock :: "uc_tb option \<Rightarrow> world \<Rightarrow> jvalue option \<times> world" where
  "makeTranslationBlock tb w =
     (case tb of
        None \<Rightarrow> (None, w)
      | Some t \<Rightarrow>
          (case static_ctor C_TranslationBlock ''(JII)V'' w of
             (False, w1) \<Rightarrow> (None, w1)
           | (True, w1) \<Rightarrow>
               NewObject (TranslationBlock (pc t) (ucast (icount t)) (ucast (tb_size t))) w1))"

subsection \<open>Dispatch trampolines (lines 150--406)\<close>

text \<open>What the host method does when called: the value it returns and the exception it
  leaves pending, if any. \<^verbatim>\<open>AttachCurrentThread\<close> is a no-op on an attached thread and
  has no effect on the world.\<close>

record host_call =
  ret :: "64 word"
  thrown :: "jthrowable option"

definition CallMethod :: "hook_wrapper \<Rightarrow> jvalue list \<Rightarrow> host_call \<Rightarrow> world \<Rightarrow> world" where
  "CallMethod hh args h w =
     log (HostCalled (hook_obj hh) (hook_meth hh) (JRef (unicorn hh) # args @ [JRef (user_data hh)]))
       (case thrown h of None \<Rightarrow> w | Some e \<Rightarrow> w\<lparr>pending := Some e\<rparr>)"

definition CallVoidMethod :: "hook_wrapper \<Rightarrow> jvalue list \<Rightarrow> host_call \<Rightarrow> world \<Rightarrow> world" where
  "CallVoidMethod hh args h w = CallMethod hh args h w"

definition CallIntMethod :: "hook_wrapper \<Rightarrow> jvalue list \<Rightarrow> host_call \<Rightarrow> world \<Rightarrow> jint \<times> world" where
  "CallIntMethod hh args h w = (ucast (ret h), CallMethod hh args h w)"

definition CallBooleanMethod :: "hook_wrapper \<Rightarrow> jvalue list \<Rightarrow> host_call \<Rightarrow> world \<Rightarrow> 8 word \<times> world" where
  "CallBooleanMethod hh args h w = (ucast (ret h), CallMethod hh args h w)"

definition CallLongMethod :: "hook_wrapper \<Rightarrow> jvalue list \<Rightarrow> host_call \<Rightarrow> world \<Rightarrow> jlong \<times> world" where
  "CallLongMethod hh args h w = (ret h, CallMethod hh args h w)"

definition hookErrorCheck :: "world \<Rightarrow> bool \<times> world" where
  "hookErrorCheck w =
     (if ExceptionCheck w then (True, snd (uc_call (Uc ''uc_emu_stop'') w)) else (False, w))"

definition sig_InterruptHook :: string where
  "sig_InterruptHook = ''(Lunicorn/Unicorn;ILjava/lang/Object;)V''"

definition cb_hookintr :: "hook_wrapper \<Rightarrow> 32 word \<Rightarrow> host_call \<Rightarrow> world \<Rightarrow> world" where
  "cb_hookintr hh intno h w = snd (hookErrorCheck (CallVoidMethod hh [JInt intno] h w))"

definition sig_InHook :: string where
  "sig_InHook = ''(Lunicorn/Unicorn;IILjava/lang/Object;)I''"

definition cb_insn_in :: "hook_wrapper \<Rightarrow> 32 word \<Rightarrow> 32 word \<Rightarrow> host_call \<Rightarrow> world \<Rightarrow> 32 word \<times> world" where
  "cb_insn_in hh port sz h w =
     (case CallIntMethod hh [JInt port, JInt sz] h w of
        (result, w1) \<Rightarrow>
          (case hookErrorCheck w1 of
             (True, w2) \<Rightarrow> (0, w2)
           | (False, w2) \<Rightarrow> (result, w2)))"

definition sig_OutHook :: string where
  "sig_OutHook = ''(Lunicorn/Unicorn;IIILjava/lang/Object;)V''"

definition cb_insn_out :: "hook_wrapper \<Rightarrow> 32 word \<Rightarrow> 32 word \<Rightarrow> 32 word \<Rightarrow> host_call \<Rightarrow> world \<Rightarrow> world" where
  "cb_insn_out hh port sz val h w =
     snd (hookErrorCheck (CallVoidMethod hh [JInt port, JInt sz, JInt val] h w))"

definition sig_SyscallHook :: string where
  "sig_SyscallHook = ''(Lunicorn/Unicorn;Ljava/lang/Object;)V''"

definition cb_insn_syscall :: "hook_wrapper \<Rightarrow> host_call \<Rightarrow> world \<Rightarrow> world" where
  "cb_insn_syscall hh h w = snd (hookErrorCheck (CallVoidMethod hh [] h w))"

definition sig_CpuidHook :: string where
  "sig_CpuidHook = ''(Lunicorn/Unicorn;Ljava/lang/Object;)I''"

definition cb_insn_cpuid :: "hook_wrapper \<Rightarrow> host_call \<Rightarrow> world \<Rightarrow> 32 word \<times> world" where
  "cb_insn_cpuid hh h w =
     (case CallIntMethod hh [] h w of
        (result, w1) \<Rightarrow>
          (case hookErrorCheck w1 of
             (True, w2) \<Rightarrow> (0, w2)
           | (False, w2) \<Rightarrow> (result, w2)))"

definition sig_Arm64SysHook :: string where
  "sig_Arm64SysHook = ''(Lunicorn/Unicorn;ILunicorn/Arm64_CP;Ljava/lang/Object;)I''"

definition cb_insn_sys :: "hook_wrapper \<Rightarrow> 32 word \<Rightarrow> uc_arm64_cp_reg option \<Rightarrow> host_call \<Rightarrow> world \<Rightarrow> 32 word \<times> world" where
  "cb_insn_sys hh reg cp_reg h w =
     (case makeArm64_CP cp_reg w of
        (None, w1) \<Rightarrow> (0, snd (hookErrorCheck w1))
      | (Some jcp_reg, w1) \<Rightarrow>
          (case CallIntMethod hh [JInt reg, jcp_reg] h w1 of
             (result, w2) \<Rightarrow>
               (case hookErrorCheck w2 of
                  (True, w3) \<Rightarrow> (0, w3)
                | (False, w3) \<Rightarrow> (result, w3))))"

definition sig_CodeHook :: string where
  "sig_CodeHook = ''(Lunicorn/Unicorn;JILjava/lang/Object;)V''"

definition cb_hookcode :: "hook_wrapper \<Rightarrow> 64 word \<Rightarrow> 32 word \<Rightarrow> host_call \<Rightarrow> world \<Rightarrow> world" where
  "cb_hookcode hh address sz h w =
     snd (hookErrorCheck (CallVoidMethod hh [JLong address, JInt sz] h w))"

definition sig_EventMemHook :: string where
  "sig_EventMemHook = ''(Lunicorn/Unicorn;IJIJLjava/lang/Object;)Z''"

definition cb_eventmem :: "hook_wrapper \<Rightarrow> 32 word \<Rightarrow> 64 word \<Rightarrow> 32 word \<Rightarrow> 64 word \<Rightarrow> host_call \<Rightarrow> world \<Rightarrow> bool \<times> world" where
  "cb_eventmem hh type address sz val h w =
     (case CallBooleanMethod hh [JInt type, JLong address, JInt sz, JLong val] h w of
        (result, w1) \<Rightarrow>
          (case hookErrorCheck w1 of
             (True, w2) \<Rightarrow> (False, w2)
           | (False, w2) \<Rightarrow> (result \<noteq> 0, w2)))"

definition sig_MemHook :: string where
  "sig_MemHook = ''(Lunicorn/Unicorn;IJIJLjava/lang/Object;)V''"

definition cb_hookmem :: "hook_wrapper \<Rightarrow> 32 word \<Rightarrow> 64 word \<Rightarrow> 32 word \<Rightarrow> 64 word \<Rightarrow> host_call \<Rightarrow> world \<Rightarrow> world" where
  "cb_hookmem hh type address sz val h w =
     snd (hookErrorCheck
       (CallVoidMethod hh [JInt type, JLong address, JInt sz, JLong val] h w))"

definition sig_InvalidInstructionHook :: string where
  "sig_InvalidInstructionHook = ''(Lunicorn/Unicorn;Ljava/lang/Object;)Z''"

definition cb_hookinsn_invalid :: "hook_wrapper \<Rightarrow> host_call \<Rightarrow> world \<Rightarrow> bool \<times> world" where
  "cb_hookinsn_invalid hh h w =
     (case CallBooleanMethod hh [] h w of
        (result, w1) \<Rightarrow>
          (case hookErrorCheck w1 of
             (True, w2) \<Rightarrow> (False, w2)
           | (False, w2) \<Rightarrow> (result \<noteq> 0, w2)))"

definition sig_EdgeGeneratedHook :: string where
  "sig_EdgeGeneratedHook =
     ''(Lunicorn/Unicorn;Lunicorn/TranslationBlock;'' @
     ''Lunicorn/TranslationBlock;Ljava/lang/Object;)V''"

definition cb_edge_gen :: "hook_wrapper \<Rightarrow> uc_tb option \<Rightarrow> uc_tb option \<Rightarrow> host_call \<Rightarrow> world \<Rightarrow> world" where
  "cb_edge_gen hh cur_tb prev_tb h w =
     (case makeTranslationBlock cur_tb w of
        (None, w1) \<Rightarrow> snd (hookErrorCheck w1)
      | (Some jcur_tb, w1) \<Rightarrow>
          (case makeTranslationBlock prev_tb w1 of
             (None, w2) \<Rightarrow> snd (hookErrorCheck w2)
           | (Some jprev_tb, w2) \<Rightarrow>
               snd (hookErrorCheck (CallVoidMethod hh [jcur_tb, jprev_tb] h w2))))"

definition sig_TcgOpcodeHook :: string where
  "sig_TcgOpcodeHook = ''(Lunicorn/Unicorn;JJJILjava/lang/Object;)V''"

definition cb_tcg_op_2 :: "hook_wrapper \<Rightarrow> 64 word \<Rightarrow> 64 word \<Rightarrow> 64 word \<Rightarrow> 32 word \<Rightarrow> host_call \<Rightarrow> world \<Rightarrow> world" where
  "cb_tcg_op_2 hh address arg1 arg2 sz h w =
     snd (hookErrorCheck
       (CallVoidMethod hh [JLong address, JLong arg1, JLong arg2, JInt sz] h w))"

definition sig_TlbFillHook :: string where
  "sig_TlbFillHook = ''(Lunicorn/Unicorn;JILjava/lang/Object;)J''"

text \<open>\<^verbatim>\<open>UC_PROT_ALL\<close> is a constant of unicorn.h, an \<^verbatim>\<open>int\<close>; it is the first parameter.
  \<^verbatim>\<open>~UC_PROT_ALL\<close> is computed at 32 bits and sign-extended to meet the \<^verbatim>\<open>jlong\<close>;
  the permissions are stored into a 32-bit field.\<close>

definition cb_tlbevent :: "32 word \<Rightarrow> hook_wrapper \<Rightarrow> 64 word \<Rightarrow> 32 word \<Rightarrow> uc_tlb_entry \<Rightarrow> host_call \<Rightarrow> world \<Rightarrow> (bool \<times> uc_tlb_entry) \<times> world" where
  "cb_tlbevent UC_PROT_ALL hh vaddr type entry h w =
     (case CallLongMethod hh [JLong vaddr, JInt type] h w of
        (result, w1) \<Rightarrow>
          (case hookErrorCheck w1 of
             (True, w2) \<Rightarrow> ((False, entry), w2)
           | (False, w2) \<Rightarrow>
               (if result = - 1 then ((False, entry), w2)
                else ((True, entry\<lparr>paddr := result AND scast (NOT UC_PROT_ALL),
                                   perms := ucast (result AND scast UC_PROT_ALL)\<rparr>), w2))))"

definition sig_MmioReadHandler :: string where
  "sig_MmioReadHandler = ''(Lunicorn/Unicorn;JILjava/lang/Object;)J''"

definition cb_mmio_read :: "hook_wrapper \<Rightarrow> 64 word \<Rightarrow> 32 word \<Rightarrow> host_call \<Rightarrow> world \<Rightarrow> 64 word \<times> world" where
  "cb_mmio_read hh offset sz h w =
     (case CallLongMethod hh [JLong offset, JInt sz] h w of
        (result, w1) \<Rightarrow>
          (case hookErrorCheck w1 of
             (True, w2) \<Rightarrow> (0, w2)
           | (False, w2) \<Rightarrow> (result, w2)))"

definition sig_MmioWriteHandler :: string where
  "sig_MmioWriteHandler = ''(Lunicorn/Unicorn;JIJLjava/lang/Object;)V''"

definition cb_mmio_write :: "hook_wrapper \<Rightarrow> 64 word \<Rightarrow> 32 word \<Rightarrow> 64 word \<Rightarrow> host_call \<Rightarrow> world \<Rightarrow> world" where
  "cb_mmio_write hh offset sz val h w =
     snd (hookErrorCheck (CallVoidMethod hh [JLong offset, JInt sz, JLong val] h w))"

text \<open>The engine fires a hook by calling the registered function pointer with the
  registered record and the event's arguments. \<open>firing\<close> is one such call, \<open>fire\<close> the
  indirect call itself, \<open>native_ret\<close> what the engine gets back (for the TLB hook also
  the entry it passed by pointer).\<close>

datatype firing =
    F_hookintr "32 word"
  | F_insn_in "32 word" "32 word"
  | F_insn_out "32 word" "32 word" "32 word"
  | F_insn_syscall
  | F_insn_cpuid
  | F_insn_sys "32 word" "uc_arm64_cp_reg option"
  | F_hookcode "64 word" "32 word"
  | F_eventmem "32 word" "64 word" "32 word" "64 word"
  | F_hookmem "32 word" "64 word" "32 word" "64 word"
  | F_hookinsn_invalid
  | F_edge_gen "uc_tb option" "uc_tb option"
  | F_tcg_op_2 "64 word" "64 word" "64 word" "32 word"
  | F_tlbevent "64 word" "32 word" uc_tlb_entry
  | F_mmio_read "64 word" "32 word"
  | F_mmio_write "64 word" "32 word" "64 word"

datatype native_ret =
    R_void
  | R_u32 "32 word"
  | R_u64 "64 word"
  | R_bool bool
  | R_tlb bool uc_tlb_entry

fun fire :: "32 word \<Rightarrow> hook_wrapper \<Rightarrow> firing \<Rightarrow> host_call \<Rightarrow> world \<Rightarrow> native_ret \<times> world" where
  "fire P hh (F_hookintr intno) h w = (R_void, cb_hookintr hh intno h w)"
| "fire P hh (F_insn_in port sz) h w =
     (case cb_insn_in hh port sz h w of (r, w1) \<Rightarrow> (R_u32 r, w1))"
| "fire P hh (F_insn_out port sz val) h w = (R_void, cb_insn_out hh port sz val h w)"
| "fire P hh F_insn_syscall h w = (R_void, cb_insn_syscall hh h w)"
| "fire P hh F_insn_cpuid h w = (case cb_insn_cpuid hh h w of (r, w1) \<Rightarrow> (R_u32 r, w1))"
| "fire P hh (F_insn_sys reg cp_reg) h w =
     (case cb_insn_sys hh reg cp_reg h w of (r, w1) \<Rightarrow> (R_u32 r, w1))"
| "fire P hh (F_hookcode address sz) h w = (R_void, cb_hookcode hh address sz h w)"
| "fire P hh (F_eventmem type address sz val) h w =
     (case cb_eventmem hh type address sz val h w of (r, w1) \<Rightarrow> (R_bool r, w1))"
| "fire P hh (F_hookmem type address sz val) h w =
     (R_void, cb_hookmem hh type address sz val h w)"
| "fire P hh F_hookinsn_invalid h w =
     (case cb_hookinsn_invalid hh h w of (r, w1) \<Rightarrow> (R_bool r, w1))"
| "fire P hh (F_edge_gen cur_tb prev_tb) h w = (R_void, cb_edge_gen hh cur_tb prev_tb h w)"
| "fire P hh (F_tcg_op_2 address arg1 arg2 sz) h w =
     (R_void, cb_tcg_op_2 hh address arg1 arg2 sz h w)"
| "fire P hh (F_tlbevent vaddr type entry) h w =
     (case cb_tlbevent P hh vaddr type entry h w of ((r, e), w1) \<Rightarrow> (R_tlb r e, w1))"
| "fire P hh (F_mmio_read offset sz) h w =
     (case cb_mmio_read hh offset sz h w of (r, w1) \<Rightarrow> (R_u64 r, w1))"
| "fire P hh (F_mmio_write offset sz val) h w = (R_void, cb_mmio_write hh offset sz val h w)"

subsection \<open>Callback registration registry (lines 837--1131)\<close>

text \<open>Constants of unicorn.h, x86.h and arm64.h that the registration functions compare
  against. The headers are not part of the binding; the constants are parameters.\<close>

record uc_hook_type =
  UC_HOOK_INTR :: jint
  UC_HOOK_INSN :: jint
  UC_HOOK_CODE :: jint
  UC_HOOK_BLOCK :: jint
  UC_HOOK_MEM_INVALID :: jint
  UC_HOOK_MEM_VALID :: jint
  UC_HOOK_INSN_INVALID :: jint
  UC_HOOK_EDGE_GENERATED :: jint
  UC_HOOK_TCG_OPCODE :: jint
  UC_HOOK_TLB_FILL :: jint

record uc_insn =
  UC_X86_INS_IN :: jint
  UC_X86_INS_OUT :: jint
  UC_X86_INS_SYSCALL :: jint
  UC_X86_INS_SYSENTER :: jint
  UC_X86_INS_CPUID :: jint
  UC_ARM64_INS_MRS :: jint
  UC_ARM64_INS_MSR :: jint
  UC_ARM64_INS_SYS :: jint
  UC_ARM64_INS_SYSL :: jint

definition store :: "nat \<Rightarrow> hook_wrapper \<Rightarrow> world \<Rightarrow> world" where
  "store p h w = w\<lparr>heap := (heap w)(p \<mapsto> h)\<rparr>"

text \<open>Reading a field through a pointer to no live record is undefined in C; the model
  marks it with \<open>Fault\<close> and stops.\<close>

definition deleteHookWrapper :: "pointer \<Rightarrow> world \<Rightarrow> world" where
  "deleteHookWrapper hh w =
     (case hh of
        None \<Rightarrow> w
      | Some p \<Rightarrow>
          (case heap w p of
             None \<Rightarrow> log Fault w
           | Some h \<Rightarrow>
               (let w1 = (case unicorn h of None \<Rightarrow> w | Some r \<Rightarrow> DeleteGlobalRef r w);
                    w2 = (case hook_obj h of None \<Rightarrow> w1 | Some r \<Rightarrow> DeleteGlobalRef r w1);
                    w3 = (case user_data h of None \<Rightarrow> w2 | Some r \<Rightarrow> DeleteGlobalRef r w2)
                in free p w3)))"

definition makeHookWrapper :: "jobject \<Rightarrow> jobject \<Rightarrow> jobject \<Rightarrow> string \<Rightarrow> string \<Rightarrow> world \<Rightarrow> pointer \<times> world" where
  "makeHookWrapper self callback ud hook_name hook_sig w =
     (case calloc w of
        (None, w1) \<Rightarrow> (None, throwOutOfMemoryError ''Unable to allocate hook_wrapper'' w1)
      | (Some p, w1) \<Rightarrow>
          (case NewGlobalRef self w1 of
             (r_self, w2) \<Rightarrow>
               (let hh2 = zeroed\<lparr>unicorn := r_self\<rparr>; w2' = store p hh2 w2 in
                if r_self = None then (None, deleteHookWrapper (Some p) w2')
                else
                  (case NewGlobalRef callback w2' of
                     (r_cb, w3) \<Rightarrow>
                       (let hh3 = hh2\<lparr>hook_obj := r_cb\<rparr>; w3' = store p hh3 w3 in
                        if r_cb = None then (None, deleteHookWrapper (Some p) w3')
                        else
                          (case GetObjectClass w3' of
                             (False, w4) \<Rightarrow> (None, deleteHookWrapper (Some p) w4)
                           | (True, w4) \<Rightarrow>
                               (case GetMethodID hook_name hook_sig w4 of
                                  (m, w5) \<Rightarrow>
                                    (let hh5 = hh3\<lparr>hook_meth := m\<rparr>; w5' = store p hh5 w5 in
                                     if m = None then (None, deleteHookWrapper (Some p) w5')
                                     else
                                       (case ud of
                                          None \<Rightarrow> (Some p, w5')
                                        | Some _ \<Rightarrow>
                                            (case NewGlobalRef ud w5' of
                                               (r_ud, w6) \<Rightarrow>
                                                 (let w6' = store p (hh5\<lparr>user_data := r_ud\<rparr>) w6 in
                                                  if r_ud = None
                                                  then (None, deleteHookWrapper (Some p) w6')
                                                  else (Some p, w6'))))))))))))"

text \<open>\<^verbatim>\<open>uc_hook_add(uc, &hh->uc_hh, type, callback, hh, begin, end, ...)\<close>: the engine is
  handed the record as the hook's user data and, on success, stores the hook handle
  through the pointer to the record's first field. With \<open>hh = NULL\<close> that pointer is null
  too: the call is recorded as made with a null record, and the engine's store on
  success is a native fault, as is a store through a pointer to no live record.\<close>

definition uc_hook_add :: "pointer \<Rightarrow> jint \<Rightarrow> trampoline \<Rightarrow> jlong \<Rightarrow> jlong \<Rightarrow> jint list \<Rightarrow> world \<Rightarrow> uc_err \<times> world" where
  "uc_hook_add hh type cb begin_a end_a args w =
     (case uc_call (Uc_hook_add hh type cb begin_a end_a args) w of
        (r, w1) \<Rightarrow>
          (status r,
           if status r = UC_ERR_OK then
             (case hh of
                None \<Rightarrow> log Fault w1
              | Some p \<Rightarrow>
                  (case heap w1 p of
                     None \<Rightarrow> log Fault w1
                   | Some h \<Rightarrow> store p (h\<lparr>uc_hh := out_val r\<rparr>) w1))
           else w1))"

text \<open>The tail the three \<^verbatim>\<open>_hook_add\<close> overloads share word for word (lines 935--944,
  995--1004, 1028--1037); they differ in the trailing arguments of \<^verbatim>\<open>uc_hook_add\<close>.\<close>

definition hook_add_tail :: "jobject \<Rightarrow> jint \<Rightarrow> jobject \<Rightarrow> jobject \<Rightarrow> jlong \<Rightarrow> jlong \<Rightarrow> jint list \<Rightarrow> string \<Rightarrow> trampoline \<Rightarrow> world \<Rightarrow> pointer \<times> world" where
  "hook_add_tail self type callback ud begin_a end_a args hook_sig hook_callback w =
     (case makeHookWrapper self callback ud ''hook'' hook_sig w of
        (hh, w1) \<Rightarrow>
          (case uc_hook_add hh type hook_callback begin_a end_a args w1 of
             (err, w2) \<Rightarrow>
               (if err \<noteq> UC_ERR_OK
                then (None, deleteHookWrapper hh (throwUnicornException err w2))
                else (hh, w2))))"

text \<open>The \<^verbatim>\<open>if\<close> chain of the first overload (lines 909--933); \<open>None\<close> is its last
  \<^verbatim>\<open>else\<close>.\<close>

definition hook_add_kind :: "uc_hook_type \<Rightarrow> jint \<Rightarrow> (string \<times> trampoline) option" where
  "hook_add_kind H type =
     (if type = UC_HOOK_INTR H then Some (sig_InterruptHook, cb_hookintr_p)
      else if type = UC_HOOK_CODE H \<or> type = UC_HOOK_BLOCK H then Some (sig_CodeHook, cb_hookcode_p)
      else if type AND UC_HOOK_MEM_INVALID H \<noteq> 0 \<and> type AND NOT (UC_HOOK_MEM_INVALID H) = 0
        then Some (sig_EventMemHook, cb_eventmem_p)
      else if type AND UC_HOOK_MEM_VALID H \<noteq> 0 \<and> type AND NOT (UC_HOOK_MEM_VALID H) = 0
        then Some (sig_MemHook, cb_hookmem_p)
      else if type = UC_HOOK_INSN_INVALID H then Some (sig_InvalidInstructionHook, cb_hookinsn_invalid_p)
      else if type = UC_HOOK_EDGE_GENERATED H then Some (sig_EdgeGeneratedHook, cb_edge_gen_p)
      else if type = UC_HOOK_TLB_FILL H then Some (sig_TlbFillHook, cb_tlbevent_p)
      else None)"

definition Unicorn_hook_add :: "uc_hook_type \<Rightarrow> jobject \<Rightarrow> jlong \<Rightarrow> jint \<Rightarrow> jobject \<Rightarrow> jobject \<Rightarrow> jlong \<Rightarrow> jlong \<Rightarrow> world \<Rightarrow> pointer \<times> world" where
  "Unicorn_hook_add H self uc type callback ud begin_a end_a w =
     (case hook_add_kind H type of
        None \<Rightarrow> (None, throwUnicornException UC_ERR_HOOK w)
      | Some (hook_sig, hook_callback) \<Rightarrow>
          hook_add_tail self type callback ud begin_a end_a [] hook_sig hook_callback w)"

text \<open>The \<^verbatim>\<open>switch\<close> of the second overload (lines 961--989): the first matching label
  wins; \<open>None\<close> is its \<^verbatim>\<open>default\<close>.\<close>

definition hook_add_insn :: "uc_insn \<Rightarrow> jint \<Rightarrow> (string \<times> trampoline) option" where
  "hook_add_insn I arg =
     (if arg = UC_X86_INS_IN I then Some (sig_InHook, cb_insn_in_p)
      else if arg = UC_X86_INS_OUT I then Some (sig_OutHook, cb_insn_out_p)
      else if arg = UC_X86_INS_SYSCALL I \<or> arg = UC_X86_INS_SYSENTER I
        then Some (sig_SyscallHook, cb_insn_syscall_p)
      else if arg = UC_X86_INS_CPUID I then Some (sig_CpuidHook, cb_insn_cpuid_p)
      else if arg = UC_ARM64_INS_MRS I \<or> arg = UC_ARM64_INS_MSR I
           \<or> arg = UC_ARM64_INS_SYS I \<or> arg = UC_ARM64_INS_SYSL I
        then Some (sig_Arm64SysHook, cb_insn_sys_p)
      else None)"

definition Unicorn_hook_add_arg :: "uc_hook_type \<Rightarrow> uc_insn \<Rightarrow> jobject \<Rightarrow> jlong \<Rightarrow> jint \<Rightarrow> jobject \<Rightarrow> jobject \<Rightarrow> jlong \<Rightarrow> jlong \<Rightarrow> jint \<Rightarrow> world \<Rightarrow> pointer \<times> world" where
  "Unicorn_hook_add_arg H I self uc type callback ud begin_a end_a arg w =
     (if type = UC_HOOK_INSN H then
        (case hook_add_insn I arg of
           None \<Rightarrow> (None, throwUnicornException UC_ERR_INSN_INVALID w)
         | Some (hook_sig, hook_callback) \<Rightarrow>
             hook_add_tail self type callback ud begin_a end_a [arg] hook_sig hook_callback w)
      else (None, throwUnicornException UC_ERR_HOOK w))"

definition Unicorn_hook_add_arg2 :: "uc_hook_type \<Rightarrow> jobject \<Rightarrow> jlong \<Rightarrow> jint \<Rightarrow> jobject \<Rightarrow> jobject \<Rightarrow> jlong \<Rightarrow> jlong \<Rightarrow> jint \<Rightarrow> jint \<Rightarrow> world \<Rightarrow> pointer \<times> world" where
  "Unicorn_hook_add_arg2 H self uc type callback ud begin_a end_a arg1 arg2 w =
     (if type = UC_HOOK_TCG_OPCODE H then
        hook_add_tail self type callback ud begin_a end_a [arg1, arg2]
          sig_TcgOpcodeHook cb_tcg_op_2_p w
      else (None, throwUnicornException UC_ERR_HOOK w))"

text \<open>\<^verbatim>\<open>_hook_del\<close> (lines 1045--1063). The status of \<^verbatim>\<open>uc_hook_del\<close> is dropped.\<close>

definition Unicorn_hook_del :: "jlong \<Rightarrow> pointer \<Rightarrow> world \<Rightarrow> world" where
  "Unicorn_hook_del uc hh w =
     (case hh of
        None \<Rightarrow> log Fault w
      | Some p \<Rightarrow>
          (case heap w p of
             None \<Rightarrow> log Fault w
           | Some h \<Rightarrow>
               (let w1 = snd (uc_call (Uc_hook_del (uc_hh h)) w);
                    (h2, w2) = (case unicorn h of
                                  None \<Rightarrow> (h, w1)
                                | Some r \<Rightarrow> (h\<lparr>unicorn := None\<rparr>, DeleteGlobalRef r w1));
                    (h3, w3) = (case hook_obj h2 of
                                  None \<Rightarrow> (h2, w2)
                                | Some r \<Rightarrow> (h2\<lparr>hook_obj := None\<rparr>, DeleteGlobalRef r w2));
                    (h4, w4) = (case user_data h3 of
                                  None \<Rightarrow> (h3, w3)
                                | Some r \<Rightarrow> (h3\<lparr>user_data := None\<rparr>, DeleteGlobalRef r w3))
                in store p h4 w4)))"

definition Unicorn_hookwrapper_free :: "pointer \<Rightarrow> world \<Rightarrow> world" where
  "Unicorn_hookwrapper_free hh w = deleteHookWrapper hh w"

text \<open>\<^verbatim>\<open>_mmio_map\<close> (lines 1083--1131). \<open>mmio_fail\<close> is the code under its \<^verbatim>\<open>fail:\<close>
  label. The result is the Java array of handles, \<open>None\<close> for \<^verbatim>\<open>NULL\<close>.\<close>

definition mmio_fail :: "pointer \<Rightarrow> pointer \<Rightarrow> world \<Rightarrow> nat list option \<times> world" where
  "mmio_fail hooks0 hooks1 w = (None, deleteHookWrapper hooks1 (deleteHookWrapper hooks0 w))"

definition Unicorn_mmio_map :: "jobject \<Rightarrow> jlong \<Rightarrow> jlong \<Rightarrow> jlong \<Rightarrow> jobject \<Rightarrow> jobject \<Rightarrow> jobject \<Rightarrow> jobject \<Rightarrow> world \<Rightarrow> nat list option \<times> world" where
  "Unicorn_mmio_map self uc address sz read_cb user_data_read write_cb user_data_write w =
     (case (case read_cb of
              None \<Rightarrow> (None, w)
            | Some _ \<Rightarrow> makeHookWrapper self read_cb user_data_read ''read'' sig_MmioReadHandler w) of
        (hooks0, w1) \<Rightarrow>
          (if read_cb \<noteq> None \<and> hooks0 = None then mmio_fail hooks0 None w1
           else
             (case (case write_cb of
                      None \<Rightarrow> (None, w1)
                    | Some _ \<Rightarrow>
                        makeHookWrapper self write_cb user_data_write ''write''
                          sig_MmioWriteHandler w1) of
                (hooks1, w2) \<Rightarrow>
                  (if write_cb \<noteq> None \<and> hooks1 = None then mmio_fail hooks0 hooks1 w2
                   else
                     (let hooksLong = (case hooks0 of None \<Rightarrow> [] | Some p \<Rightarrow> [p])
                                      @ (case hooks1 of None \<Rightarrow> [] | Some p \<Rightarrow> [p]) in
                      (case NewArray w2 of
                         (False, w3) \<Rightarrow> mmio_fail hooks0 hooks1 w3
                       | (True, w3) \<Rightarrow>
                           (case uc_call
                                   (Uc_mmio_map
                                      (if hooks0 \<noteq> None then Some cb_mmio_read_p else None) hooks0
                                      (if hooks1 \<noteq> None then Some cb_mmio_write_p else None) hooks1)
                                   w3 of
                              (r, w4) \<Rightarrow>
                                (if status r \<noteq> UC_ERR_OK
                                 then mmio_fail hooks0 hooks1 (throwUnicornException (status r) w4)
                                 else (Some hooksLong, w4)))))))))"

subsection \<open>Caller-supplied Java arrays\<close>

text \<open>\<^verbatim>\<open>Get<Type>ArrayElements\<close> hands out a native buffer holding the array's elements,
  or \<^verbatim>\<open>NULL\<close>; \<^verbatim>\<open>Release<Type>ArrayElements\<close> copies the buffer back into the array
  unless the mode is \<^verbatim>\<open>JNI_ABORT\<close>. (A JVM that pins the array instead of copying makes
  the buffer the array itself; the two agree as long as the engine does not store through
  the \<^verbatim>\<open>const\<close> pointers of its write functions, which is how those functions are
  modelled.) The buffer the engine was handed is \<open>None\<close> when the source passes on an
  unchecked \<^verbatim>\<open>NULL\<close>.\<close>

datatype release_mode = Mode_0 | JNI_COMMIT | JNI_ABORT

definition GetByteArrayElements :: "nat \<Rightarrow> world \<Rightarrow> 8 word list option \<times> world" where
  "GetByteArrayElements a w = (case env_ok w of
      (False, w1) \<Rightarrow> (None, jvm_raise (OutOfMemoryError ''Java heap space'') w1)
    | (True, w1) \<Rightarrow> (Some (byte_arrays w1 a), w1))"

definition ReleaseByteArrayElements :: "nat \<Rightarrow> 8 word list option \<Rightarrow> release_mode \<Rightarrow> world \<Rightarrow> world" where
  "ReleaseByteArrayElements a arr mode w =
     (case arr of
        None \<Rightarrow> w
      | Some b \<Rightarrow> (if mode = JNI_ABORT then w else w\<lparr>byte_arrays := (byte_arrays w)(a := b)\<rparr>))"

definition GetLongArrayElements :: "nat \<Rightarrow> world \<Rightarrow> 64 word list option \<times> world" where
  "GetLongArrayElements a w = (case env_ok w of
      (False, w1) \<Rightarrow> (None, jvm_raise (OutOfMemoryError ''Java heap space'') w1)
    | (True, w1) \<Rightarrow> (Some (long_arrays w1 a), w1))"

definition ReleaseLongArrayElements :: "nat \<Rightarrow> 64 word list option \<Rightarrow> release_mode \<Rightarrow> world \<Rightarrow> world" where
  "ReleaseLongArrayElements a arr mode w =
     (case arr of
        None \<Rightarrow> w
      | Some b \<Rightarrow> (if mode = JNI_ABORT then w else w\<lparr>long_arrays := (long_arrays w)(a := b)\<rparr>))"

text \<open>What a buffer holds after the engine stored \<open>out\<close> at its start. A store past
  the end of the buffer is a native fault the binding does not check for; the model cuts
  it off.\<close>

definition stored :: "'a list \<Rightarrow> 'a list \<Rightarrow> 'a list" where
  "stored out buf = take (length buf) (out @ drop (length out) buf)"

subsection \<open>Engine control facade (lines 413--835 and 1138--1623)\<close>

definition Unicorn_open :: "jint \<Rightarrow> jint \<Rightarrow> world \<Rightarrow> jlong \<times> world" where
  "Unicorn_open arch mode w =
     (case uc_call (Uc ''uc_open'') w of
        (r, w1) \<Rightarrow>
          (if status r \<noteq> UC_ERR_OK then (0, throwUnicornException (status r) w1)
           else (out_val r, w1)))"

definition Unicorn_close :: "jlong \<Rightarrow> world \<Rightarrow> world" where
  "Unicorn_close uc w =
     (case uc_call (Uc ''uc_close'') w of
        (r, w1) \<Rightarrow> (if status r \<noteq> UC_ERR_OK then throwUnicornException (status r) w1 else w1))"

definition Unicorn_emu_start :: "jlong \<Rightarrow> jlong \<Rightarrow> jlong \<Rightarrow> jlong \<Rightarrow> jlong \<Rightarrow> world \<Rightarrow> world" where
  "Unicorn_emu_start uc begin_a until timeout count w =
     (case uc_call (Uc ''uc_emu_start'') w of
        (r, w1) \<Rightarrow> (if status r \<noteq> UC_ERR_OK then throwUnicornException (status r) w1 else w1))"

definition Unicorn_emu_stop :: "jlong \<Rightarrow> world \<Rightarrow> world" where
  "Unicorn_emu_stop uc w =
     (case uc_call (Uc ''uc_emu_stop'') w of
        (r, w1) \<Rightarrow> (if status r \<noteq> UC_ERR_OK then throwUnicornException (status r) w1 else w1))"

text \<open>\<^verbatim>\<open>generic_reg_read\<close> and \<^verbatim>\<open>generic_reg_write\<close> choose the engine function by
  \<^verbatim>\<open>isContext\<close>; the register number and the value pointer go to the engine as they
  are.\<close>

definition generic_reg_read :: "jlong \<Rightarrow> jint \<Rightarrow> world \<Rightarrow> uc_reply \<times> world" where
  "generic_reg_read ptr isContext w =
     (if isContext \<noteq> 0 then uc_call (Uc ''uc_context_reg_read'') w
      else uc_call (Uc ''uc_reg_read'') w)"

definition generic_reg_write :: "jlong \<Rightarrow> jint \<Rightarrow> world \<Rightarrow> uc_reply \<times> world" where
  "generic_reg_write ptr isContext w =
     (if isContext \<noteq> 0 then uc_call (Uc ''uc_context_reg_write'') w
      else uc_call (Uc ''uc_reg_write'') w)"


definition Unicorn_reg_read_long :: "jlong \<Rightarrow> jint \<Rightarrow> jint \<Rightarrow> world \<Rightarrow> jlong \<times> world" where
  "Unicorn_reg_read_long ptr isContext regid w =
     (case generic_reg_read ptr isContext w of
        (r, w1) \<Rightarrow>
          (if status r \<noteq> UC_ERR_OK then (0, throwUnicornException (status r) w1)
           else (out_val r, w1)))"

definition Unicorn_reg_read_bytes :: "jlong \<Rightarrow> jint \<Rightarrow> jint \<Rightarrow> nat \<Rightarrow> world \<Rightarrow> world" where
  "Unicorn_reg_read_bytes ptr isContext regid data w =
     (case GetByteArrayElements data w of
        (arr, w1) \<Rightarrow>
          (case generic_reg_read ptr isContext w1 of
             (r, w2) \<Rightarrow>
               (let w3 = ReleaseByteArrayElements data (map_option (stored (out_bytes r)) arr) Mode_0 w2
                in if status r \<noteq> UC_ERR_OK then throwUnicornException (status r) w3 else w3)))"

definition Unicorn_reg_write_long :: "jlong \<Rightarrow> jint \<Rightarrow> jint \<Rightarrow> jlong \<Rightarrow> world \<Rightarrow> world" where
  "Unicorn_reg_write_long ptr isContext regid val w =
     (case generic_reg_write ptr isContext w of
        (r, w1) \<Rightarrow> (if status r \<noteq> UC_ERR_OK then throwUnicornException (status r) w1 else w1))"

definition Unicorn_reg_write_bytes :: "jlong \<Rightarrow> jint \<Rightarrow> jint \<Rightarrow> nat \<Rightarrow> world \<Rightarrow> world" where
  "Unicorn_reg_write_bytes ptr isContext regid data w =
     (case GetByteArrayElements data w of
        (arr, w1) \<Rightarrow>
          (case generic_reg_write ptr isContext w1 of
             (r, w2) \<Rightarrow>
               (let w3 = ReleaseByteArrayElements data arr JNI_ABORT w2
                in if status r \<noteq> UC_ERR_OK then throwUnicornException (status r) w3 else w3)))"

definition Unicorn_reg_read_x86_mmr :: "jlong \<Rightarrow> jint \<Rightarrow> jint \<Rightarrow> world \<Rightarrow> jvalue option \<times> world" where
  "Unicorn_reg_read_x86_mmr ptr isContext regid w =
     (case generic_reg_read ptr isContext w of
        (r, w1) \<Rightarrow>
          (if status r \<noteq> UC_ERR_OK then (None, throwUnicornException (status r) w1)
           else makeX86_MMR (Some (out_mmr r)) w1))"

definition Unicorn_reg_write_x86_mmr :: "jlong \<Rightarrow> jint \<Rightarrow> jint \<Rightarrow> 16 word \<Rightarrow> jlong \<Rightarrow> jint \<Rightarrow> jint \<Rightarrow> world \<Rightarrow> world" where
  "Unicorn_reg_write_x86_mmr ptr isContext regid sel base_a lim flgs w =
     (case generic_reg_write ptr isContext w of
        (r, w1) \<Rightarrow> (if status r \<noteq> UC_ERR_OK then throwUnicornException (status r) w1 else w1))"

definition Unicorn_reg_read_x86_msr :: "jlong \<Rightarrow> jint \<Rightarrow> jint \<Rightarrow> world \<Rightarrow> jlong \<times> world" where
  "Unicorn_reg_read_x86_msr ptr isContext rid w =
     (case generic_reg_read ptr isContext w of
        (r, w1) \<Rightarrow>
          (if status r \<noteq> UC_ERR_OK then (0, throwUnicornException (status r) w1)
           else (out_val r, w1)))"

definition Unicorn_reg_write_x86_msr :: "jlong \<Rightarrow> jint \<Rightarrow> jint \<Rightarrow> jlong \<Rightarrow> world \<Rightarrow> world" where
  "Unicorn_reg_write_x86_msr ptr isContext rid val w =
     (case generic_reg_write ptr isContext w of
        (r, w1) \<Rightarrow> (if status r \<noteq> UC_ERR_OK then throwUnicornException (status r) w1 else w1))"

definition Unicorn_reg_read_arm_cp :: "jlong \<Rightarrow> jint \<Rightarrow> jint \<Rightarrow> jint \<Rightarrow> jint \<Rightarrow> jint \<Rightarrow> jint \<Rightarrow> jint \<Rightarrow> jint \<Rightarrow> world \<Rightarrow> jlong \<times> world" where
  "Unicorn_reg_read_arm_cp ptr isContext cp is64 sec crn_a crm_a opc1 opc2 w =
     (case generic_reg_read ptr isContext w of
        (r, w1) \<Rightarrow>
          (if status r \<noteq> UC_ERR_OK then (0, throwUnicornException (status r) w1)
           else (out_val r, w1)))"

definition Unicorn_reg_write_arm_cp :: "jlong \<Rightarrow> jint \<Rightarrow> jint \<Rightarrow> jint \<Rightarrow> jint \<Rightarrow> jint \<Rightarrow> jint \<Rightarrow> jint \<Rightarrow> jint \<Rightarrow> jlong \<Rightarrow> world \<Rightarrow> world" where
  "Unicorn_reg_write_arm_cp ptr isContext cp is64 sec crn_a crm_a opc1 opc2 val w =
     (case generic_reg_write ptr isContext w of
        (r, w1) \<Rightarrow> (if status r \<noteq> UC_ERR_OK then throwUnicornException (status r) w1 else w1))"

definition Unicorn_reg_read_arm64_cp :: "jlong \<Rightarrow> jint \<Rightarrow> jint \<Rightarrow> jint \<Rightarrow> jint \<Rightarrow> jint \<Rightarrow> jint \<Rightarrow> world \<Rightarrow> jlong \<times> world" where
  "Unicorn_reg_read_arm64_cp ptr isContext crn_a crm_a op0_a op1_a op2_a w =
     (case generic_reg_read ptr isContext w of
        (r, w1) \<Rightarrow>
          (if status r \<noteq> UC_ERR_OK then (0, throwUnicornException (status r) w1)
           else (out_val r, w1)))"

definition Unicorn_reg_write_arm64_cp :: "jlong \<Rightarrow> jint \<Rightarrow> jint \<Rightarrow> jint \<Rightarrow> jint \<Rightarrow> jint \<Rightarrow> jint \<Rightarrow> jlong \<Rightarrow> world \<Rightarrow> world" where
  "Unicorn_reg_write_arm64_cp ptr isContext crn_a crm_a op0_a op1_a op2_a val w =
     (case generic_reg_write ptr isContext w of
        (r, w1) \<Rightarrow> (if status r \<noteq> UC_ERR_OK then throwUnicornException (status r) w1 else w1))"

definition Unicorn_mem_read :: "jlong \<Rightarrow> jlong \<Rightarrow> nat \<Rightarrow> world \<Rightarrow> world" where
  "Unicorn_mem_read uc address dest w =
     (case GetByteArrayElements dest w of
        (arr, w1) \<Rightarrow>
          (case uc_call (Uc ''uc_mem_read'') w1 of
             (r, w2) \<Rightarrow>
               (let w3 = ReleaseByteArrayElements dest (map_option (stored (out_bytes r)) arr) Mode_0 w2
                in if status r \<noteq> UC_ERR_OK then throwUnicornException (status r) w3 else w3)))"

definition Unicorn_mem_write :: "jlong \<Rightarrow> jlong \<Rightarrow> nat \<Rightarrow> world \<Rightarrow> world" where
  "Unicorn_mem_write uc address src w =
     (case GetByteArrayElements src w of
        (arr, w1) \<Rightarrow>
          (case uc_call (Uc ''uc_mem_write'') w1 of
             (r, w2) \<Rightarrow>
               (let w3 = ReleaseByteArrayElements src arr JNI_ABORT w2
                in if status r \<noteq> UC_ERR_OK then throwUnicornException (status r) w3 else w3)))"

definition Unicorn_query :: "jlong \<Rightarrow> jint \<Rightarrow> world \<Rightarrow> jlong \<times> world" where
  "Unicorn_query uc type w =
     (case uc_call (Uc ''uc_query'') w of
        (r, w1) \<Rightarrow>
          (if status r \<noteq> UC_ERR_OK then (0, throwUnicornException (status r) w1)
           else (out_val r, w1)))"

text \<open>\<^verbatim>\<open>_errno\<close> returns the engine's last status as a value; it raises nothing.\<close>

definition Unicorn_errno :: "jlong \<Rightarrow> world \<Rightarrow> uc_err \<times> world" where
  "Unicorn_errno uc w = (case uc_call (Uc ''uc_errno'') w of (r, w1) \<Rightarrow> (status r, w1))"

definition Unicorn_mem_map :: "jlong \<Rightarrow> jlong \<Rightarrow> jlong \<Rightarrow> jint \<Rightarrow> world \<Rightarrow> world" where
  "Unicorn_mem_map uc address sz perms_a w =
     (case uc_call (Uc ''uc_mem_map'') w of
        (r, w1) \<Rightarrow> (if status r \<noteq> UC_ERR_OK then throwUnicornException (status r) w1 else w1))"

text \<open>\<^verbatim>\<open>_mem_map_ptr\<close>: \<open>capacity\<close> and \<open>host_address\<close> are what
  \<^verbatim>\<open>GetDirectBufferCapacity\<close> and \<^verbatim>\<open>GetDirectBufferAddress\<close> answer for the buffer.\<close>

definition Unicorn_mem_map_ptr :: "jlong \<Rightarrow> jlong \<Rightarrow> jlong \<Rightarrow> pointer \<Rightarrow> jint \<Rightarrow> world \<Rightarrow> world" where
  "Unicorn_mem_map_ptr uc address capacity host_address perms_a w =
     (if capacity <s 0 \<or> host_address = None
      then throwCustomUnicornException ''mem_map_ptr requires a direct buffer'' w
      else
        (case uc_call (Uc ''uc_mem_map_ptr'') w of
           (r, w1) \<Rightarrow>
             (if status r \<noteq> UC_ERR_OK then throwUnicornException (status r) w1 else w1)))"

definition Unicorn_mem_unmap :: "jlong \<Rightarrow> jlong \<Rightarrow> jlong \<Rightarrow> world \<Rightarrow> world" where
  "Unicorn_mem_unmap uc address sz w =
     (case uc_call (Uc ''uc_mem_unmap'') w of
        (r, w1) \<Rightarrow> (if status r \<noteq> UC_ERR_OK then throwUnicornException (status r) w1 else w1))"

definition Unicorn_mem_protect :: "jlong \<Rightarrow> jlong \<Rightarrow> jlong \<Rightarrow> jint \<Rightarrow> world \<Rightarrow> world" where
  "Unicorn_mem_protect uc address sz perms_a w =
     (case uc_call (Uc ''uc_mem_protect'') w of
        (r, w1) \<Rightarrow> (if status r \<noteq> UC_ERR_OK then throwUnicornException (status r) w1 else w1))"

text \<open>The loop of \<^verbatim>\<open>_mem_regions\<close> (lines 1248--1257) over the engine's region list.\<close>

fun fill_regions :: "uc_mem_region list \<Rightarrow> jvalue list \<Rightarrow> world \<Rightarrow> jvalue list option \<times> world" where
  "fill_regions [] result w = (Some result, w)"
| "fill_regions (g # gs) result w =
     (case NewObject (MemRegion (region_begin g) (region_end g) (region_perms g)) w of
        (None, w1) \<Rightarrow> (None, w1)
      | (Some mr, w1) \<Rightarrow> fill_regions gs (result @ [mr]) w1)"

text \<open>The status of \<^verbatim>\<open>uc_free\<close> is dropped. The array's length is the engine's
  32-bit count, the length of its region list, cast to \<^verbatim>\<open>jsize\<close> (line 1242).\<close>

definition Unicorn_mem_regions :: "jlong \<Rightarrow> world \<Rightarrow> jvalue list option \<times> world" where
  "Unicorn_mem_regions uc w =
     (case static_ctor C_MemRegion ''(JJI)V'' w of
        (False, w1) \<Rightarrow> (None, w1)
      | (True, w1) \<Rightarrow>
          (case uc_call (Uc ''uc_mem_regions'') w1 of
             (r, w2) \<Rightarrow>
               (if status r \<noteq> UC_ERR_OK then (None, throwUnicornException (status r) w2)
                else
                  (case NewArray_jsize (word_of_nat (length (out_regions r))) w2 of
                     (False, w3) \<Rightarrow> (None, snd (uc_call (Uc ''uc_free'') w3))
                   | (True, w3) \<Rightarrow>
                       (case fill_regions (out_regions r) [] w3 of
                          (result, w4) \<Rightarrow> (result, snd (uc_call (Uc ''uc_free'') w4)))))))"

definition Unicorn_context_alloc :: "jlong \<Rightarrow> world \<Rightarrow> jlong \<times> world" where
  "Unicorn_context_alloc uc w =
     (case uc_call (Uc ''uc_context_alloc'') w of
        (r, w1) \<Rightarrow>
          (if status r \<noteq> UC_ERR_OK then (0, throwUnicornException (status r) w1)
           else (out_val r, w1)))"

definition Unicorn_context_free :: "jlong \<Rightarrow> world \<Rightarrow> world" where
  "Unicorn_context_free ctx w =
     (case uc_call (Uc ''uc_context_free'') w of
        (r, w1) \<Rightarrow> (if status r \<noteq> UC_ERR_OK then throwUnicornException (status r) w1 else w1))"

definition Unicorn_context_save :: "jlong \<Rightarrow> jlong \<Rightarrow> world \<Rightarrow> world" where
  "Unicorn_context_save uc ctx w =
     (case uc_call (Uc ''uc_context_save'') w of
        (r, w1) \<Rightarrow> (if status r \<noteq> UC_ERR_OK then throwUnicornException (status r) w1 else w1))"

definition Unicorn_context_restore :: "jlong \<Rightarrow> jlong \<Rightarrow> world \<Rightarrow> world" where
  "Unicorn_context_restore uc ctx w =
     (case uc_call (Uc ''uc_context_restore'') w of
        (r, w1) \<Rightarrow> (if status r \<noteq> UC_ERR_OK then throwUnicornException (status r) w1 else w1))"

definition Unicorn_ctl_get_mode :: "jlong \<Rightarrow> world \<Rightarrow> jint \<times> world" where
  "Unicorn_ctl_get_mode uc w =
     (case uc_call (Uc ''uc_ctl_get_mode'') w of
        (r, w1) \<Rightarrow>
          (if status r \<noteq> UC_ERR_OK then (0, throwUnicornException (status r) w1)
           else (ucast (out_val r), w1)))"

definition Unicorn_ctl_get_arch :: "jlong \<Rightarrow> world \<Rightarrow> jint \<times> world" where
  "Unicorn_ctl_get_arch uc w =
     (case uc_call (Uc ''uc_ctl_get_arch'') w of
        (r, w1) \<Rightarrow>
          (if status r \<noteq> UC_ERR_OK then (0, throwUnicornException (status r) w1)
           else (ucast (out_val r), w1)))"

definition Unicorn_ctl_get_timeout :: "jlong \<Rightarrow> world \<Rightarrow> jlong \<times> world" where
  "Unicorn_ctl_get_timeout uc w =
     (case uc_call (Uc ''uc_ctl_get_timeout'') w of
        (r, w1) \<Rightarrow>
          (if status r \<noteq> UC_ERR_OK then (0, throwUnicornException (status r) w1)
           else (out_val r, w1)))"

definition Unicorn_ctl_get_page_size :: "jlong \<Rightarrow> world \<Rightarrow> jint \<times> world" where
  "Unicorn_ctl_get_page_size uc w =
     (case uc_call (Uc ''uc_ctl_get_page_size'') w of
        (r, w1) \<Rightarrow>
          (if status r \<noteq> UC_ERR_OK then (0, throwUnicornException (status r) w1)
           else (ucast (out_val r), w1)))"

definition Unicorn_ctl_set_page_size :: "jlong \<Rightarrow> jint \<Rightarrow> world \<Rightarrow> world" where
  "Unicorn_ctl_set_page_size uc page_size w =
     (case uc_call (Uc ''uc_ctl_set_page_size'') w of
        (r, w1) \<Rightarrow> (if status r \<noteq> UC_ERR_OK then throwUnicornException (status r) w1 else w1))"

definition Unicorn_ctl_set_use_exits :: "jlong \<Rightarrow> bool \<Rightarrow> world \<Rightarrow> world" where
  "Unicorn_ctl_set_use_exits uc flag w =
     (case (if flag then uc_call (Uc ''uc_ctl_exits_enable'') w
            else uc_call (Uc ''uc_ctl_exits_disable'') w) of
        (r, w1) \<Rightarrow> (if status r \<noteq> UC_ERR_OK then throwUnicornException (status r) w1 else w1))"

definition Unicorn_ctl_get_exits_cnt :: "jlong \<Rightarrow> world \<Rightarrow> jlong \<times> world" where
  "Unicorn_ctl_get_exits_cnt uc w =
     (case uc_call (Uc ''uc_ctl_get_exits_cnt'') w of
        (r, w1) \<Rightarrow>
          (if status r \<noteq> UC_ERR_OK then (0, throwUnicornException (status r) w1)
           else (out_val r, w1)))"

text \<open>\<^verbatim>\<open>_ctl_get_exits\<close>: the fresh Java array is the result itself; its elements are
  zero until the engine's store is copied back. Its length is the engine's count cast to
  \<^verbatim>\<open>jsize\<close> (line 1469), while the engine is handed the count itself.\<close>

definition Unicorn_ctl_get_exits :: "jlong \<Rightarrow> world \<Rightarrow> 64 word list option \<times> world" where
  "Unicorn_ctl_get_exits uc w =
     (case uc_call (Uc ''uc_ctl_get_exits_cnt'') w of
        (r, w1) \<Rightarrow>
          (if status r \<noteq> UC_ERR_OK then (None, throwUnicornException (status r) w1)
           else
             (case NewArray_jsize (ucast (out_val r)) w1 of
                (False, w2) \<Rightarrow> (None, w2)
              | (True, w2) \<Rightarrow>
                  (case env_ok w2 of
                     (False, w3) \<Rightarrow> (None, jvm_raise (OutOfMemoryError ''Java heap space'') w3)
                   | (True, w3) \<Rightarrow>
                       (case uc_call (Uc ''uc_ctl_get_exits'') w3 of
                          (r2, w4) \<Rightarrow>
                            (if status r2 \<noteq> UC_ERR_OK
                             then (None, throwUnicornException (status r2) w4)
                             else (Some (stored (out_longs r2)
                                          (replicate (unat (ucast (out_val r) :: 32 word)) 0)), w4)))))))"

definition Unicorn_ctl_set_exits :: "jlong \<Rightarrow> nat \<Rightarrow> world \<Rightarrow> world" where
  "Unicorn_ctl_set_exits uc exits w =
     (case GetLongArrayElements exits w of
        (None, w1) \<Rightarrow> w1
      | (Some arr, w1) \<Rightarrow>
          (case uc_call (Uc ''uc_ctl_set_exits'') w1 of
             (r, w2) \<Rightarrow>
               (let w3 = ReleaseLongArrayElements exits (Some arr) JNI_ABORT w2
                in if status r \<noteq> UC_ERR_OK then throwUnicornException (status r) w3 else w3)))"

definition Unicorn_ctl_get_cpu_model :: "jlong \<Rightarrow> world \<Rightarrow> jint \<times> world" where
  "Unicorn_ctl_get_cpu_model uc w =
     (case uc_call (Uc ''uc_ctl_get_cpu_model'') w of
        (r, w1) \<Rightarrow>
          (if status r \<noteq> UC_ERR_OK then (0, throwUnicornException (status r) w1)
           else (ucast (out_val r), w1)))"

definition Unicorn_ctl_set_cpu_model :: "jlong \<Rightarrow> jint \<Rightarrow> world \<Rightarrow> world" where
  "Unicorn_ctl_set_cpu_model uc cpu_model w =
     (case uc_call (Uc ''uc_ctl_set_cpu_model'') w of
        (r, w1) \<Rightarrow> (if status r \<noteq> UC_ERR_OK then throwUnicornException (status r) w1 else w1))"

definition Unicorn_ctl_request_cache :: "jlong \<Rightarrow> jlong \<Rightarrow> world \<Rightarrow> jvalue option \<times> world" where
  "Unicorn_ctl_request_cache uc address w =
     (case uc_call (Uc ''uc_ctl_request_cache'') w of
        (r, w1) \<Rightarrow>
          (if status r \<noteq> UC_ERR_OK then (None, throwUnicornException (status r) w1)
           else makeTranslationBlock (Some (out_tb r)) w1))"

definition Unicorn_ctl_remove_cache :: "jlong \<Rightarrow> jlong \<Rightarrow> jlong \<Rightarrow> world \<Rightarrow> world" where
  "Unicorn_ctl_remove_cache uc address end_a w =
     (case uc_call (Uc ''uc_ctl_remove_cache'') w of
        (r, w1) \<Rightarrow> (if status r \<noteq> UC_ERR_OK then throwUnicornException (status r) w1 else w1))"

definition Unicorn_ctl_flush_tb :: "jlong \<Rightarrow> world \<Rightarrow> world" where
  "Unicorn_ctl_flush_tb uc w =
     (case uc_call (Uc ''uc_ctl_flush_tb'') w of
        (r, w1) \<Rightarrow> (if status r \<noteq> UC_ERR_OK then throwUnicornException (status r) w1 else w1))"

definition Unicorn_ctl_flush_tlb :: "jlong \<Rightarrow> world \<Rightarrow> world" where
  "Unicorn_ctl_flush_tlb uc w =
     (case uc_call (Uc ''uc_ctl_flush_tlb'') w of
        (r, w1) \<Rightarrow> (if status r \<noteq> UC_ERR_OK then throwUnicornException (status r) w1 else w1))"

definition Unicorn_ctl_tlb_mode :: "jlong \<Rightarrow> jint \<Rightarrow> world \<Rightarrow> world" where
  "Unicorn_ctl_tlb_mode uc mode w =
     (case uc_call (Uc ''uc_ctl_tlb_mode'') w of
        (r, w1) \<Rightarrow> (if status r \<noteq> UC_ERR_OK then throwUnicornException (status r) w1 else w1))"

text \<open>The JVM enters the binding through the native methods of class \<^verbatim>\<open>Unicorn\<close>.
  \<open>native_method\<close> is one such call with its arguments, \<open>run\<close> its effect on the world
  (the value it returns is dropped). Of the 54 native methods, the three that receive no
  status from the engine and throw nothing (\<^verbatim>\<open>_version\<close>, \<^verbatim>\<open>_arch_supported\<close>,
  \<^verbatim>\<open>_strerror\<close>) are left out.\<close>

datatype (plugins only: code) native_method =
    J_hook_add jobject jlong jint jobject jobject jlong jlong
  | J_hook_add_arg jobject jlong jint jobject jobject jlong jlong jint
  | J_hook_add_arg2 jobject jlong jint jobject jobject jlong jlong jint jint
  | J_hook_del jlong pointer
  | J_hookwrapper_free pointer
  | J_mmio_map jobject jlong jlong jlong jobject jobject jobject jobject
  | J_open jint jint
  | J_close jlong
  | J_emu_start jlong jlong jlong jlong jlong
  | J_emu_stop jlong
  | J_reg_read_long jlong jint jint
  | J_reg_read_bytes jlong jint jint nat
  | J_reg_write_long jlong jint jint jlong
  | J_reg_write_bytes jlong jint jint nat
  | J_reg_read_x86_mmr jlong jint jint
  | J_reg_write_x86_mmr jlong jint jint "16 word" jlong jint jint
  | J_reg_read_x86_msr jlong jint jint
  | J_reg_write_x86_msr jlong jint jint jlong
  | J_reg_read_arm_cp jlong jint jint jint jint jint jint jint jint
  | J_reg_write_arm_cp jlong jint jint jint jint jint jint jint jint jlong
  | J_reg_read_arm64_cp jlong jint jint jint jint jint jint
  | J_reg_write_arm64_cp jlong jint jint jint jint jint jint jlong
  | J_mem_read jlong jlong nat
  | J_mem_write jlong jlong nat
  | J_query jlong jint
  | J_errno jlong
  | J_mem_map jlong jlong jlong jint
  | J_mem_map_ptr jlong jlong jlong pointer jint
  | J_mem_unmap jlong jlong jlong
  | J_mem_protect jlong jlong jlong jint
  | J_mem_regions jlong
  | J_context_alloc jlong
  | J_context_free jlong
  | J_context_save jlong jlong
  | J_context_restore jlong jlong
  | J_ctl_get_mode jlong
  | J_ctl_get_arch jlong
  | J_ctl_get_timeout jlong
  | J_ctl_get_page_size jlong
  | J_ctl_set_page_size jlong jint
  | J_ctl_set_use_exits jlong bool
  | J_ctl_get_exits_cnt jlong
  | J_ctl_get_exits jlong
  | J_ctl_set_exits jlong nat
  | J_ctl_get_cpu_model jlong
  | J_ctl_set_cpu_model jlong jint
  | J_ctl_request_cache jlong jlong
  | J_ctl_remove_cache jlong jlong jlong
  | J_ctl_flush_tb jlong
  | J_ctl_flush_tlb jlong
  | J_ctl_tlb_mode jlong jint

primrec run :: "uc_hook_type \<Rightarrow> uc_insn \<Rightarrow> native_method \<Rightarrow> world \<Rightarrow> world" where
  "run H I (J_hook_add a1 a2 a3 a4 a5 a6 a7) w = snd (Unicorn_hook_add H a1 a2 a3 a4 a5 a6 a7 w)"
| "run H I (J_hook_add_arg a1 a2 a3 a4 a5 a6 a7 a8) w = snd (Unicorn_hook_add_arg H I a1 a2 a3 a4 a5 a6 a7 a8 w)"
| "run H I (J_hook_add_arg2 a1 a2 a3 a4 a5 a6 a7 a8 a9) w = snd (Unicorn_hook_add_arg2 H a1 a2 a3 a4 a5 a6 a7 a8 a9 w)"
| "run H I (J_hook_del a1 a2) w = Unicorn_hook_del a1 a2 w"
| "run H I (J_hookwrapper_free a1) w = Unicorn_hookwrapper_free a1 w"
| "run H I (J_mmio_map a1 a2 a3 a4 a5 a6 a7 a8) w = snd (Unicorn_mmio_map a1 a2 a3 a4 a5 a6 a7 a8 w)"
| "run H I (J_open a1 a2) w = snd (Unicorn_open a1 a2 w)"
| "run H I (J_close a1) w = Unicorn_close a1 w"
| "run H I (J_emu_start a1 a2 a3 a4 a5) w = Unicorn_emu_start a1 a2 a3 a4 a5 w"
| "run H I (J_emu_stop a1) w = Unicorn_emu_stop a1 w"
| "run H I (J_reg_read_long a1 a2 a3) w = snd (Unicorn_reg_read_long a1 a2 a3 w)"
| "run H I (J_reg_read_bytes a1 a2 a3 a4) w = Unicorn_reg_read_bytes a1 a2 a3 a4 w"
| "run H I (J_reg_write_long a1 a2 a3 a4) w = Unicorn_reg_write_long a1 a2 a3 a4 w"
| "run H I (J_reg_write_bytes a1 a2 a3 a4) w = Unicorn_reg_write_bytes a1 a2 a3 a4 w"
| "run H I (J_reg_read_x86_mmr a1 a2 a3) w = snd (Unicorn_reg_read_x86_mmr a1 a2 a3 w)"
| "run H I (J_reg_write_x86_mmr a1 a2 a3 a4 a5 a6 a7) w = Unicorn_reg_write_x86_mmr a1 a2 a3 a4 a5 a6 a7 w"
| "run H I (J_reg_read_x86_msr a1 a2 a3) w = snd (Unicorn_reg_read_x86_msr a1 a2 a3 w)"
| "run H I (J_reg_write_x86_msr a1 a2 a3 a4) w = Unicorn_reg_write_x86_msr a1 a2 a3 a4 w"
| "run H I (J_reg_read_arm_cp a1 a2 a3 a4 a5 a6 a7 a8 a9) w = snd (Unicorn_reg_read_arm_cp a1 a2 a3 a4 a5 a6 a7 a8 a9 w)"
| "run H I (J_reg_write_arm_cp a1 a2 a3 a4 a5 a6 a7 a8 a9 a10) w = Unicorn_reg_write_arm_cp a1 a2 a3 a4 a5 a6 a7 a8 a9 a10 w"
| "run H I (J_reg_read_arm64_cp a1 a2 a3 a4 a5 a6 a7) w = snd (Unicorn_reg_read_arm64_cp a1 a2 a3 a4 a5 a6 a7 w)"
| "run H I (J_reg_write_arm64_cp a1 a2 a3 a4 a5 a6 a7 a8) w = Unicorn_reg_write_arm64_cp a1 a2 a3 a4 a5 a6 a7 a8 w"
| "run H I (J_mem_read a1 a2 a3) w = Unicorn_mem_read a1 a2 a3 w"
| "run H I (J_mem_write a1 a2 a3) w = Unicorn_mem_write a1 a2 a3 w"
| "run H I (J_query a1 a2) w = snd (Unicorn_query a1 a2 w)"
| "run H I (J_errno a1) w = snd (Unicorn_errno a1 w)"
| "run H I (J_mem_map a1 a2 a3 a4) w = Unicorn_mem_map a1 a2 a3 a4 w"
| "run H I (J_mem_map_ptr a1 a2 a3 a4 a5) w = Unicorn_mem_map_ptr a1 a2 a3 a4 a5 w"
| "run H I (J_mem_unmap a1 a2 a3) w = Unicorn_mem_unmap a1 a2 a3 w"
| "run H I (J_mem_protect a1 a2 a3 a4) w = Unicorn_mem_protect a1 a2 a3 a4 w"
| "run H I (J_mem_regions a1) w = snd (Unicorn_mem_regions a1 w)"
| "run H I (J_context_alloc a1) w = snd (Unicorn_context_alloc a1 w)"
| "run H I (J_context_free a1) w = Unicorn_context_free a1 w"
| "run H I (J_context_save a1 a2) w = Unicorn_context_save a1 a2 w"
| "run H I (J_context_restore a1 a2) w = Unicorn_context_restore a1 a2 w"
| "run H I (J_ctl_get_mode a1) w = snd (Unicorn_ctl_get_mode a1 w)"
| "run H I (J_ctl_get_arch a1) w = snd (Unicorn_ctl_get_arch a1 w)"
| "run H I (J_ctl_get_timeout a1) w = snd (Unicorn_ctl_get_timeout a1 w)"
| "run H I (J_ctl_get_page_size a1) w = snd (Unicorn_ctl_get_page_size a1 w)"
| "run H I (J_ctl_set_page_size a1 a2) w = Unicorn_ctl_set_page_size a1 a2 w"
| "run H I (J_ctl_set_use_exits a1 a2) w = Unicorn_ctl_set_use_exits a1 a2 w"
| "run H I (J_ctl_get_exits_cnt a1) w = snd (Unicorn_ctl_get_exits_cnt a1 w)"
| "run H I (J_ctl_get_exits a1) w = snd (Unicorn_ctl_get_exits a1 w)"
| "run H I (J_ctl_set_exits a1 a2) w = Unicorn_ctl_set_exits a1 a2 w"
| "run H I (J_ctl_get_cpu_model a1) w = snd (Unicorn_ctl_get_cpu_model a1 w)"
| "run H I (J_ctl_set_cpu_model a1 a2) w = Unicorn_ctl_set_cpu_model a1 a2 w"
| "run H I (J_ctl_request_cache a1 a2) w = snd (Unicorn_ctl_request_cache a1 a2 w)"
| "run H I (J_ctl_remove_cache a1 a2 a3) w = Unicorn_ctl_remove_cache a1 a2 a3 w"
| "run H I (J_ctl_flush_tb a1) w = Unicorn_ctl_flush_tb a1 w"
| "run H I (J_ctl_flush_tlb a1) w = Unicorn_ctl_flush_tlb a1 w"
| "run H I (J_ctl_tlb_mode a1 a2) w = Unicorn_ctl_tlb_mode a1 a2 w"

section \<open>Reading the trace\<close>

text \<open>The events a call added to the trace.\<close>

definition new_events :: "world \<Rightarrow> world \<Rightarrow> event list" where
  "new_events w w' = drop (length (trace w)) (trace w')"

definition host_event :: "event \<Rightarrow> bool" where
  "host_event e = (case e of HostCalled _ _ _ \<Rightarrow> True | _ \<Rightarrow> False)"

definition native_event :: "event \<Rightarrow> bool" where
  "native_event e = (case e of Native _ _ \<Rightarrow> True | _ \<Rightarrow> False)"

definition refs_created :: "event list \<Rightarrow> nat list" where
  "refs_created es = List.map_filter (\<lambda>e. case e of RefCreated r \<Rightarrow> Some r | _ \<Rightarrow> None) es"

definition refs_deleted :: "event list \<Rightarrow> nat list" where
  "refs_deleted es = List.map_filter (\<lambda>e. case e of RefDeleted r \<Rightarrow> Some r | _ \<Rightarrow> None) es"

definition allocated :: "event list \<Rightarrow> nat list" where
  "allocated es = List.map_filter (\<lambda>e. case e of Allocated p \<Rightarrow> Some p | _ \<Rightarrow> None) es"

definition freed :: "event list \<Rightarrow> nat list" where
  "freed es = List.map_filter (\<lambda>e. case e of Freed p \<Rightarrow> Some p | _ \<Rightarrow> None) es"

text \<open>The strong references a record holds, in field order.\<close>

definition held :: "hook_wrapper \<Rightarrow> nat list" where
  "held h = List.map_filter id [unicorn h, hook_obj h, user_data h]"

subsection \<open>Trampolines\<close>

text \<open>The safe result of each hook shape: nothing for a void hook, zero for a hook that
  returns a value, \<open>False\<close> for a veto hook, \<open>False\<close> and the entry as it was for the
  TLB hook.\<close>

fun neutral :: "firing \<Rightarrow> native_ret" where
  "neutral (F_hookintr _) = R_void"
| "neutral (F_insn_in _ _) = R_u32 0"
| "neutral (F_insn_out _ _ _) = R_void"
| "neutral F_insn_syscall = R_void"
| "neutral F_insn_cpuid = R_u32 0"
| "neutral (F_insn_sys _ _) = R_u32 0"
| "neutral (F_hookcode _ _) = R_void"
| "neutral (F_eventmem _ _ _ _) = R_bool False"
| "neutral (F_hookmem _ _ _ _) = R_void"
| "neutral F_hookinsn_invalid = R_bool False"
| "neutral (F_edge_gen _ _) = R_void"
| "neutral (F_tcg_op_2 _ _ _ _) = R_void"
| "neutral (F_tlbevent _ _ entry) = R_tlb False entry"
| "neutral (F_mmio_read _ _) = R_u64 0"
| "neutral (F_mmio_write _ _ _) = R_void"

text \<open>Whether a firing reaches the host callback: the two trampolines that build
  descriptor objects first return early when a construction fails.\<close>

fun invoked :: "firing \<Rightarrow> world \<Rightarrow> bool" where
  "invoked (F_insn_sys reg cp_reg) w = (fst (makeArm64_CP cp_reg w) \<noteq> None)"
| "invoked (F_edge_gen cur_tb prev_tb) w =
     (fst (makeTranslationBlock cur_tb w) \<noteq> None \<and>
      fst (makeTranslationBlock prev_tb (snd (makeTranslationBlock cur_tb w))) \<noteq> None)"
| "invoked _ w = True"

text \<open>The trampoline's last two acts were the host call on the record's callback and
  the request to stop the engine.\<close>

definition stops_after_host_call :: "hook_wrapper \<Rightarrow> world \<Rightarrow> world \<Rightarrow> bool" where
  "stops_after_host_call hh w w' =
     (\<exists>pre args st. new_events w w' =
        pre @ [HostCalled (hook_obj hh) (hook_meth hh) args, Native (Uc ''uc_emu_stop'') st])"

subsection \<open>Registration\<close>

text \<open>The hook types the first overload of \<^verbatim>\<open>_hook_add\<close> is meant for: six single
  types and the non-empty sets of invalid-access or of valid-access memory events.\<close>

definition recognized_type :: "uc_hook_type \<Rightarrow> jint \<Rightarrow> bool" where
  "recognized_type H type =
     (type \<in> {UC_HOOK_INTR H, UC_HOOK_CODE H, UC_HOOK_BLOCK H, UC_HOOK_INSN_INVALID H,
               UC_HOOK_EDGE_GENERATED H, UC_HOOK_TLB_FILL H}
      \<or> (type \<noteq> 0 \<and> type AND UC_HOOK_MEM_INVALID H = type)
      \<or> (type \<noteq> 0 \<and> type AND UC_HOOK_MEM_VALID H = type))"

definition insn_ids :: "uc_insn \<Rightarrow> jint list" where
  "insn_ids I = [UC_X86_INS_IN I, UC_X86_INS_OUT I, UC_X86_INS_SYSCALL I, UC_X86_INS_SYSENTER I,
                 UC_X86_INS_CPUID I, UC_ARM64_INS_MRS I, UC_ARM64_INS_MSR I, UC_ARM64_INS_SYS I,
                 UC_ARM64_INS_SYSL I]"

text \<open>The record a successful \<^verbatim>\<open>makeHookWrapper\<close> leaves when the next free global
  reference is \<open>g\<close>: the engine facade, the callback and, if given, the user data are
  referenced in this order.\<close>

definition made :: "string \<Rightarrow> string \<Rightarrow> nat \<Rightarrow> jobject \<Rightarrow> hook_wrapper" where
  "made n sg g ud = \<lparr>uc_hh = 0, unicorn = Some g, hook_obj = Some (Suc g), hook_meth = Some (n, sg),
     user_data = (case ud of None \<Rightarrow> None | Some _ \<Rightarrow> Some (Suc (Suc g)))\<rparr>"

text \<open>A registration call was turned away with status \<open>err\<close>: it returned \<^verbatim>\<open>0\<close>, its
  only act was to raise the exception for \<open>err\<close>, and no record was allocated.\<close>

definition rejected :: "uc_err \<Rightarrow> world \<Rightarrow> pointer \<times> world \<Rightarrow> bool" where
  "rejected err w res =
     (fst res = None \<and>
      new_events w (snd res) = [Thrown (UnicornException (uc_strerror w err))] \<and>
      pending (snd res) = Some (UnicornException (uc_strerror w err)) \<and>
      heap (snd res) = heap w \<and> brk (snd res) = brk w)"

text \<open>A registration call went through for record \<open>p\<close>: the record's method was
  resolved for the signature \<open>sg\<close>, and the call's last act handed trampoline \<open>tr\<close> and
  the record to the engine, which accepted.\<close>

definition registered :: "string \<Rightarrow> trampoline \<Rightarrow> jint \<Rightarrow> jint list \<Rightarrow> pointer \<times> world \<Rightarrow> bool" where
  "registered sg tr type args res =
     (case fst res of
        None \<Rightarrow> False
      | Some p \<Rightarrow>
          (case heap (snd res) p of
             None \<Rightarrow> False
           | Some h \<Rightarrow>
               hook_meth h = Some (''hook'', sg) \<and>
               (\<exists>b e. last (trace (snd res)) = Native (Uc_hook_add (Some p) type tr b e args) UC_ERR_OK)))"

subsection \<open>Status codes\<close>

text \<open>The engine calls of the native methods whose status is never tested: the detach
  in \<^verbatim>\<open>_hook_del\<close>, \<^verbatim>\<open>uc_free\<close> in \<^verbatim>\<open>_mem_regions\<close>, and \<^verbatim>\<open>uc_errno\<close>, whose
  result is the value \<^verbatim>\<open>_errno\<close> returns. (Outside the native methods,
  \<open>hookErrorCheck\<close> drops the status of its \<^verbatim>\<open>uc_emu_stop\<close>; the native method
  \<^verbatim>\<open>_emu_stop\<close> tests it.)\<close>

definition dropped :: "uc_fn \<Rightarrow> bool" where
  "dropped f = (case f of
      Uc_hook_del _ \<Rightarrow> True
    | Uc n \<Rightarrow> n = ''uc_free'' \<or> n = ''uc_errno''
    | _ \<Rightarrow> False)"

definition checked_statuses :: "event list \<Rightarrow> uc_err list" where
  "checked_statuses es =
     List.map_filter (\<lambda>e. case e of Native f st \<Rightarrow> (if dropped f then None else Some st) | _ \<Rightarrow> None) es"

section \<open>Sample data\<close>

text \<open>A world in which nothing has happened yet and no party misbehaves, with a message
  table for the statuses the binding names; the hook types of unicorn.h; a set of distinct
  instruction identifiers; a registered record.\<close>

definition sample_strerror :: "uc_err \<Rightarrow> string" where
  "sample_strerror err = (case err of
      UC_ERR_OK \<Rightarrow> ''OK (UC_ERR_OK)''
    | UC_ERR_HOOK \<Rightarrow> ''Invalid hook type (UC_ERR_HOOK)''
    | UC_ERR_INSN_INVALID \<Rightarrow> ''Invalid instruction (UC_ERR_INSN_INVALID)''
    | UC_ERR_OTHER n \<Rightarrow> ''Unknown error code'')"

definition w0 :: world where
  "w0 = \<lparr>pending = None, trace = [], heap = Map.empty, brk = 0, next_gref = 0,
          jni_fate = [], uc_fate = [], uc_strerror = sample_strerror,
          statics = (\<lambda>c. \<lparr>clazz = None, clazzInit = False\<rparr>),
          byte_arrays = (\<lambda>a. []), long_arrays = (\<lambda>a. [])\<rparr>"

definition H0 :: uc_hook_type where
  "H0 = \<lparr>UC_HOOK_INTR = 1, UC_HOOK_INSN = 2, UC_HOOK_CODE = 4, UC_HOOK_BLOCK = 8,
          UC_HOOK_MEM_INVALID = 1008, UC_HOOK_MEM_VALID = 7168, UC_HOOK_INSN_INVALID = 16384,
          UC_HOOK_EDGE_GENERATED = 32768, UC_HOOK_TCG_OPCODE = 65536, UC_HOOK_TLB_FILL = 131072\<rparr>"

definition I0 :: uc_insn where
  "I0 = \<lparr>UC_X86_INS_IN = 218, UC_X86_INS_OUT = 500, UC_X86_INS_SYSCALL = 699,
          UC_X86_INS_SYSENTER = 700, UC_X86_INS_CPUID = 83, UC_ARM64_INS_MRS = 1,
          UC_ARM64_INS_MSR = 2, UC_ARM64_INS_SYS = 3, UC_ARM64_INS_SYSL = 4\<rparr>"

definition hh0 :: hook_wrapper where
  "hh0 = \<lparr>uc_hh = 7, unicorn = Some 10, hook_obj = Some 11,
           hook_meth = Some (''hook'', sig_InHook), user_data = Some 12\<rparr>"

section \<open>Status checks\<close>

text \<open>The statuses a native method has bound and tested are those of its engine calls
  other than the three whose result it never tests. \<open>unicorn_thrown\<close> lists the messages
  of the \<^verbatim>\<open>UnicornException\<close>s the binding itself threw. \<open>status_tested\<close> is what the
  test does, between the world \<open>w\<close> at the call and the world \<open>w'\<close> at the return: in a
  call that did not fault, every non-OK status bound during the call has been thrown as
  a \<^verbatim>\<open>UnicornException\<close> with the engine's message and is pending at the return; and
  when a status was bound and all bound statuses are OK, the binding threw no
  \<^verbatim>\<open>UnicornException\<close>. (An exception may still be pending then: one a callback left
  behind during the engine call, or one the JVM raised itself.) The other predicates
  describe parts of a call: a part that binds no status and throws no
  \<^verbatim>\<open>UnicornException\<close>, a part that also leaves the pending exception alone, a part
  whose bound statuses are all OK, and a part ending with one bound status.\<close>

definition unicorn_thrown :: "event list \<Rightarrow> string list" where
  "unicorn_thrown es =
     List.map_filter (\<lambda>e. case e of Thrown (UnicornException m) \<Rightarrow> Some m | _ \<Rightarrow> None) es"






section \<open>How the primitives change the world\<close>

lemmas unpair = split_beta bool.case_eq_if option.case_eq_if Let_def

lemma log_fields [simp]:
  "pending (log e w) = pending w"
  "trace (log e w) = trace w @ [e]"
  "heap (log e w) = heap w"
  "brk (log e w) = brk w"
  "next_gref (log e w) = next_gref w"
  "jni_fate (log e w) = jni_fate w"
  "uc_fate (log e w) = uc_fate w"
  "uc_strerror (log e w) = uc_strerror w"
  "statics (log e w) = statics w"
  "byte_arrays (log e w) = byte_arrays w"
  "long_arrays (log e w) = long_arrays w"
  by (simp_all add: log_def)

lemma store_fields [simp]:
  "pending (store p h w) = pending w"
  "trace (store p h w) = trace w"
  "heap (store p h w) = (heap w)(p \<mapsto> h)"
  "brk (store p h w) = brk w"
  "next_gref (store p h w) = next_gref w"
  "jni_fate (store p h w) = jni_fate w"
  "uc_fate (store p h w) = uc_fate w"
  "uc_strerror (store p h w) = uc_strerror w"
  "statics (store p h w) = statics w"
  "byte_arrays (store p h w) = byte_arrays w"
  "long_arrays (store p h w) = long_arrays w"
  by (simp_all add: store_def)

lemma free_fields [simp]:
  "pending (free p w) = pending w"
  "trace (free p w) = trace w @ [Freed p]"
  "heap (free p w) = (heap w)(p := None)"
  "brk (free p w) = brk w"
  "next_gref (free p w) = next_gref w"
  "jni_fate (free p w) = jni_fate w"
  "uc_fate (free p w) = uc_fate w"
  "uc_strerror (free p w) = uc_strerror w"
  "statics (free p w) = statics w"
  "byte_arrays (free p w) = byte_arrays w"
  "long_arrays (free p w) = long_arrays w"
  by (simp_all add: free_def)

lemma jvm_raise_fields [simp]:
  "pending (jvm_raise e w) = Some e"
  "trace (jvm_raise e w) = trace w"
  "heap (jvm_raise e w) = heap w"
  "brk (jvm_raise e w) = brk w"
  "next_gref (jvm_raise e w) = next_gref w"
  "jni_fate (jvm_raise e w) = jni_fate w"
  "uc_fate (jvm_raise e w) = uc_fate w"
  "uc_strerror (jvm_raise e w) = uc_strerror w"
  "statics (jvm_raise e w) = statics w"
  "byte_arrays (jvm_raise e w) = byte_arrays w"
  "long_arrays (jvm_raise e w) = long_arrays w"
  by (simp_all add: jvm_raise_def)

lemma ThrowNew_fields [simp]:
  "pending (ThrowNew e w) = Some e"
  "trace (ThrowNew e w) = trace w @ [Thrown e]"
  "heap (ThrowNew e w) = heap w"
  "brk (ThrowNew e w) = brk w"
  "next_gref (ThrowNew e w) = next_gref w"
  "jni_fate (ThrowNew e w) = jni_fate w"
  "uc_fate (ThrowNew e w) = uc_fate w"
  "uc_strerror (ThrowNew e w) = uc_strerror w"
  "statics (ThrowNew e w) = statics w"
  "byte_arrays (ThrowNew e w) = byte_arrays w"
  "long_arrays (ThrowNew e w) = long_arrays w"
  by (simp_all add: ThrowNew_def)

lemma DeleteGlobalRef_fields [simp]:
  "pending (DeleteGlobalRef r w) = pending w"
  "trace (DeleteGlobalRef r w) = trace w @ [RefDeleted r]"
  "heap (DeleteGlobalRef r w) = heap w"
  "brk (DeleteGlobalRef r w) = brk w"
  "next_gref (DeleteGlobalRef r w) = next_gref w"
  "jni_fate (DeleteGlobalRef r w) = jni_fate w"
  "uc_fate (DeleteGlobalRef r w) = uc_fate w"
  "uc_strerror (DeleteGlobalRef r w) = uc_strerror w"
  "statics (DeleteGlobalRef r w) = statics w"
  "byte_arrays (DeleteGlobalRef r w) = byte_arrays w"
  "long_arrays (DeleteGlobalRef r w) = long_arrays w"
  by (simp_all add: DeleteGlobalRef_def)

lemma set_clazz_fields [simp]:
  "pending (set_clazz c r w) = pending w"
  "trace (set_clazz c r w) = trace w"
  "heap (set_clazz c r w) = heap w"
  "brk (set_clazz c r w) = brk w"
  "next_gref (set_clazz c r w) = next_gref w"
  "jni_fate (set_clazz c r w) = jni_fate w"
  "uc_fate (set_clazz c r w) = uc_fate w"
  "uc_strerror (set_clazz c r w) = uc_strerror w"
  "byte_arrays (set_clazz c r w) = byte_arrays w"
  "long_arrays (set_clazz c r w) = long_arrays w"
  by (simp_all add: set_clazz_def)

lemma set_clazzInit_fields [simp]:
  "pending (set_clazzInit c b w) = pending w"
  "trace (set_clazzInit c b w) = trace w"
  "heap (set_clazzInit c b w) = heap w"
  "brk (set_clazzInit c b w) = brk w"
  "next_gref (set_clazzInit c b w) = next_gref w"
  "jni_fate (set_clazzInit c b w) = jni_fate w"
  "uc_fate (set_clazzInit c b w) = uc_fate w"
  "uc_strerror (set_clazzInit c b w) = uc_strerror w"
  "byte_arrays (set_clazzInit c b w) = byte_arrays w"
  "long_arrays (set_clazzInit c b w) = long_arrays w"
  by (simp_all add: set_clazzInit_def)

lemma env_ok_fields [simp]:
  "pending (snd (env_ok w)) = pending w"
  "trace (snd (env_ok w)) = trace w"
  "heap (snd (env_ok w)) = heap w"
  "brk (snd (env_ok w)) = brk w"
  "next_gref (snd (env_ok w)) = next_gref w"
  "jni_fate (snd (env_ok w)) = tl (jni_fate w)"
  "uc_fate (snd (env_ok w)) = uc_fate w"
  "uc_strerror (snd (env_ok w)) = uc_strerror w"
  "statics (snd (env_ok w)) = statics w"
  "byte_arrays (snd (env_ok w)) = byte_arrays w"
  "long_arrays (snd (env_ok w)) = long_arrays w"
  by (simp_all add: env_ok_def split: list.splits)

lemma next_reply_fields [simp]:
  "pending (snd (next_reply w)) = pending w"
  "trace (snd (next_reply w)) = trace w"
  "heap (snd (next_reply w)) = heap w"
  "brk (snd (next_reply w)) = brk w"
  "next_gref (snd (next_reply w)) = next_gref w"
  "jni_fate (snd (next_reply w)) = jni_fate w"
  "uc_fate (snd (next_reply w)) = tl (uc_fate w)"
  "uc_strerror (snd (next_reply w)) = uc_strerror w"
  "statics (snd (next_reply w)) = statics w"
  "byte_arrays (snd (next_reply w)) = byte_arrays w"
  "long_arrays (snd (next_reply w)) = long_arrays w"
  by (simp_all add: next_reply_def split: list.splits)

lemma uc_call_fields [simp]:
  "pending (snd (uc_call f w)) =
     (case hook_thrown (fst (next_reply w)) of None \<Rightarrow> pending w | Some t \<Rightarrow> Some t)"
  "trace (snd (uc_call f w)) = trace w @ [Native f (status (fst (uc_call f w)))]"
  "heap (snd (uc_call f w)) = heap w"
  "brk (snd (uc_call f w)) = brk w"
  "next_gref (snd (uc_call f w)) = next_gref w"
  "jni_fate (snd (uc_call f w)) = jni_fate w"
  "uc_fate (snd (uc_call f w)) = tl (uc_fate w)"
  "uc_strerror (snd (uc_call f w)) = uc_strerror w"
  "statics (snd (uc_call f w)) = statics w"
  "byte_arrays (snd (uc_call f w)) = byte_arrays w"
  "long_arrays (snd (uc_call f w)) = long_arrays w"
  by (simp_all add: uc_call_def split_beta split: option.splits)

lemma env_ok_fst: "fst (env_ok w) = (case jni_fate w of [] \<Rightarrow> True | b # bs \<Rightarrow> b)"
  by (simp add: env_ok_def split: list.splits)

lemma env_ok_calm [simp]: "jni_fate w = [] \<Longrightarrow> fst (env_ok w)"
  by (simp add: env_ok_fst)

lemma uc_call_status: "status (fst (uc_call f w)) = (case uc_fate w of [] \<Rightarrow> UC_ERR_OK | r # rs \<Rightarrow> status r)"
  by (simp add: uc_call_def next_reply_def ok_reply_def split_beta split: list.splits)

lemma uc_call_fst: "fst (uc_call f w) = fst (next_reply w)"
  by (simp add: uc_call_def split_beta)

lemma throw_fields [simp]:
  "pending (throwUnicornException err w) = Some (UnicornException (uc_strerror w err))"
  "trace (throwUnicornException err w) = trace w @ [Thrown (UnicornException (uc_strerror w err))]"
  "heap (throwUnicornException err w) = heap w"
  "brk (throwUnicornException err w) = brk w"
  "next_gref (throwUnicornException err w) = next_gref w"
  "jni_fate (throwUnicornException err w) = jni_fate w"
  "uc_fate (throwUnicornException err w) = uc_fate w"
  "uc_strerror (throwUnicornException err w) = uc_strerror w"
  "byte_arrays (throwUnicornException err w) = byte_arrays w"
  "long_arrays (throwUnicornException err w) = long_arrays w"
  by (simp_all add: throwUnicornException_def)

lemma new_events_self [simp]: "new_events w w = []"
  by (simp add: new_events_def)

lemma new_events_append: "trace w' = trace w @ es \<Longrightarrow> new_events w w' = es"
  by (simp add: new_events_def)

text \<open>A step that only adds events to the trace.\<close>

lemma new_events_trans:
  assumes "trace w1 = trace w @ es1" and "trace w2 = trace w1 @ es2"
  shows "new_events w w2 = es1 @ es2"
  using assms by (simp add: new_events_def)

lemma next_reply_status:
  "status (fst (next_reply w)) = (case uc_fate w of [] \<Rightarrow> UC_ERR_OK | r # rs \<Rightarrow> status r)"
  by (simp add: next_reply_def ok_reply_def split: list.splits)


section \<open>Dispatch trampolines\<close>

lemma CallMethod_fields [simp]:
  "trace (CallMethod hh args h w) =
     trace w @ [HostCalled (hook_obj hh) (hook_meth hh) (JRef (unicorn hh) # args @ [JRef (user_data hh)])]"
  "pending (CallMethod hh args h w) = (case thrown h of None \<Rightarrow> pending w | Some e \<Rightarrow> Some e)"
  by (simp_all add: CallMethod_def split: option.splits)

lemma hookErrorCheck_fst [simp]: "fst (hookErrorCheck w) = (pending w \<noteq> None)"
  by (simp add: hookErrorCheck_def ExceptionCheck_def)

lemma hookErrorCheck_trace:
  "trace (snd (hookErrorCheck w)) =
     trace w @ (if pending w \<noteq> None
                then [Native (Uc ''uc_emu_stop'') (status (fst (uc_call (Uc ''uc_emu_stop'') w)))]
                else [])"
  by (simp add: hookErrorCheck_def ExceptionCheck_def)

lemma hookErrorCheck_quiet:
  "\<exists>es. trace (snd (hookErrorCheck w)) = trace w @ es \<and> \<not> list_ex host_event es \<and> Fault \<notin> set es"
  by (simp add: hookErrorCheck_trace host_event_def)

text \<open>Building a descriptor object calls no host method, and leaves the pending
  exception alone when it succeeds.\<close>

lemma NewGlobalRef_pending [simp]: "pending (snd (NewGlobalRef obj w)) = pending w"
  by (simp add: NewGlobalRef_def unpair)

lemma NewGlobalRef_quiet:
  "\<exists>es. trace (snd (NewGlobalRef obj w)) = trace w @ es \<and> \<not> list_ex host_event es \<and> Fault \<notin> set es"
  by (simp add: NewGlobalRef_def unpair host_event_def)

lemma static_clazz_ok:
  "fst (static_clazz c w) \<Longrightarrow> pending (snd (static_clazz c w)) = pending w"
  by (auto simp add: static_clazz_def FindClass_def unpair split: if_splits)

lemma static_clazz_quiet:
  "\<exists>es. trace (snd (static_clazz c w)) = trace w @ es \<and> \<not> list_ex host_event es \<and> Fault \<notin> set es"
  using NewGlobalRef_quiet [of "Some 0" "snd (env_ok w)"]
  by (simp add: static_clazz_def FindClass_def unpair host_event_def)

lemma static_ctor_ok:
  "fst (static_ctor c sg w) \<Longrightarrow> pending (snd (static_ctor c sg w)) = pending w"
  using static_clazz_ok [of c w]
  by (simp add: static_ctor_def GetMethodID_def unpair split: if_splits)

lemma static_ctor_quiet:
  "\<exists>es. trace (snd (static_ctor c sg w)) = trace w @ es \<and> \<not> list_ex host_event es \<and> Fault \<notin> set es"
  using static_clazz_quiet [of c w]
  by (simp add: static_ctor_def GetMethodID_def unpair)

lemma NewObject_ok: "fst (NewObject v w) \<noteq> None \<Longrightarrow> pending (snd (NewObject v w)) = pending w"
  by (simp add: NewObject_def unpair split: if_splits)

lemma NewObject_trace [simp]: "trace (snd (NewObject v w)) = trace w"
  by (simp add: NewObject_def unpair)

lemma makeArm64_CP_ok:
  "fst (makeArm64_CP cp w) \<noteq> None \<Longrightarrow> pending (snd (makeArm64_CP cp w)) = pending w"
  using static_ctor_ok [of C_Arm64_CP "''(IIIIIJ)V''" w]
  by (simp add: makeArm64_CP_def unpair NewObject_ok split: if_splits)

lemma makeArm64_CP_quiet:
  "\<exists>es. trace (snd (makeArm64_CP cp w)) = trace w @ es \<and> \<not> list_ex host_event es \<and> Fault \<notin> set es"
  using static_ctor_quiet [of C_Arm64_CP "''(IIIIIJ)V''" w]
  by (simp add: makeArm64_CP_def unpair)

lemma makeTranslationBlock_ok:
  "fst (makeTranslationBlock tb w) \<noteq> None \<Longrightarrow> pending (snd (makeTranslationBlock tb w)) = pending w"
  using static_ctor_ok [of C_TranslationBlock "''(JII)V''" w]
  by (simp add: makeTranslationBlock_def unpair NewObject_ok split: if_splits)

lemma makeTranslationBlock_quiet:
  "\<exists>es. trace (snd (makeTranslationBlock tb w)) = trace w @ es \<and> \<not> list_ex host_event es \<and> Fault \<notin> set es"
  using static_ctor_quiet [of C_TranslationBlock "''(JII)V''" w]
  by (simp add: makeTranslationBlock_def unpair)

lemma stops_later:
  assumes "thrown h \<noteq> None \<or> pending w1 \<noteq> None" and "trace w1 = trace w @ es"
  shows "stops_after_host_call hh w (snd (hookErrorCheck (CallMethod hh args h w1)))"
proof -
  have "pending (CallMethod hh args h w1) \<noteq> None"
    using assms(1) by (auto split: option.splits)
  then show ?thesis
    using assms(2) by (simp add: stops_after_host_call_def new_events_def hookErrorCheck_trace)
qed

lemma stops_direct:
  "thrown h \<noteq> None \<or> pending w \<noteq> None \<Longrightarrow>
     stops_after_host_call hh w (snd (hookErrorCheck (CallMethod hh args h w)))"
  by (rule stops_later [where es = "[]"]) simp_all

lemma CallMethod_pending:
  "thrown h \<noteq> None \<or> pending w \<noteq> None \<Longrightarrow> pending (CallMethod hh args h w) \<noteq> None"
  by (auto split: option.splits)

lemmas trampoline_defs =
  cb_hookintr_def cb_insn_in_def cb_insn_out_def cb_insn_syscall_def cb_insn_cpuid_def
  cb_hookcode_def cb_eventmem_def cb_hookmem_def cb_hookinsn_invalid_def cb_tcg_op_2_def
  cb_tlbevent_def cb_mmio_read_def cb_mmio_write_def CallVoidMethod_def CallIntMethod_def
  CallBooleanMethod_def CallLongMethod_def

text \<open>
  C1. Every trampoline gives a pending host failure priority. Whenever the host
  callback was reached and an exception is pending as it returns (the callback threw, or
  one was pending already), the trampoline returns the neutral result of its shape, not
  the callback's value, and its last two acts are the host call and the
  \<^verbatim>\<open>uc_emu_stop\<close> request.
\<close>

theorem trampoline_failure_priority:
  assumes "thrown h \<noteq> None \<or> pending w \<noteq> None" and "invoked f w"
  shows "fst (fire P hh f h w) = neutral f \<and> stops_after_host_call hh w (snd (fire P hh f h w))"
proof (cases f)
  case (F_insn_sys reg cp)
  let ?w1 = "snd (makeArm64_CP cp w)"
  from F_insn_sys assms(2) obtain j where j: "fst (makeArm64_CP cp w) = Some j" by auto
  have p: "thrown h \<noteq> None \<or> pending ?w1 \<noteq> None"
    using assms(1) makeArm64_CP_ok [of cp w] j by auto
  obtain es where "trace ?w1 = trace w @ es" using makeArm64_CP_quiet by blast
  from stops_later [OF p this] CallMethod_pending [OF p]
  show ?thesis using F_insn_sys j
    by (simp add: cb_insn_sys_def CallIntMethod_def unpair)
next
  case (F_edge_gen cur prev)
  let ?w1 = "snd (makeTranslationBlock cur w)"
  let ?w2 = "snd (makeTranslationBlock prev ?w1)"
  from F_edge_gen assms(2) obtain j1 j2 where
    j: "fst (makeTranslationBlock cur w) = Some j1" "fst (makeTranslationBlock prev ?w1) = Some j2"
    by auto
  have p: "thrown h \<noteq> None \<or> pending ?w2 \<noteq> None"
    using assms(1) makeTranslationBlock_ok [of cur w] makeTranslationBlock_ok [of prev ?w1] j by auto
  obtain es1 es2 where "trace ?w1 = trace w @ es1" "trace ?w2 = trace ?w1 @ es2"
    using makeTranslationBlock_quiet by blast
  then have "trace ?w2 = trace w @ (es1 @ es2)" by simp
  from stops_later [OF p this]
  show ?thesis using F_edge_gen j
    by (simp add: cb_edge_gen_def CallVoidMethod_def unpair)
qed (use assms(1) stops_direct [OF assms(1)] CallMethod_pending [OF assms(1)] in
      \<open>simp_all add: trampoline_defs unpair\<close>)

theorem trampoline_failure_priority_witness:
  "fst (fire 7 hh0 (F_insn_in 96 1) \<lparr>ret = 5, thrown = Some (HostThrowable 0)\<rparr> w0) = R_u32 0 \<and>
   stops_after_host_call hh0 w0
     (snd (fire 7 hh0 (F_insn_in 96 1) \<lparr>ret = 5, thrown = Some (HostThrowable 0)\<rparr> w0)) \<and>
   fst (fire 7 hh0 (F_insn_in 96 1) \<lparr>ret = 5, thrown = None\<rparr> w0) = R_u32 5"
  using trampoline_failure_priority
    [of "\<lparr>ret = 5, thrown = Some (HostThrowable 0)\<rparr>" w0 "F_insn_in 96 1" 7 hh0]
  by (simp add: cb_insn_in_def CallIntMethod_def unpair w0_def)

lemma scast_NOT_32_64: "(scast (NOT (p :: 32 word)) :: 64 word) = NOT (scast p)"
  by (auto simp add: bit_eq_iff bit_simps)

lemma ucast_AND_scast_64_32:
  "(ucast ((v :: 64 word) AND scast (p :: 32 word)) :: 32 word) = ucast v AND p"
  by (rule bit_word_eqI) (auto simp add: bit_simps)

text \<open>
  C5. The TLB-fill trampoline. When the callback returns a value other than \<open>-1\<close> and
  no host failure is pending, the trampoline answers "handled" and has written the entry:
  the physical address is the value with the permission bits cleared, the permissions
  are the value's permission bits. When the callback returns \<open>-1\<close>, the trampoline
  answers "not handled" and the entry is as it was.
\<close>

theorem tlb_fill_replacement:
  "(thrown h = None \<and> pending w = None \<and> ret h \<noteq> - 1 \<longrightarrow>
      fst (cb_tlbevent P hh vaddr ty entry h w) =
        (True, entry\<lparr>paddr := ret h AND NOT (scast P), perms := ucast (ret h) AND P\<rparr>)) \<and>
   (ret h = - 1 \<longrightarrow> fst (cb_tlbevent P hh vaddr ty entry h w) = (False, entry))"
  by (simp add: cb_tlbevent_def CallLongMethod_def unpair scast_NOT_32_64 ucast_AND_scast_64_32)

theorem tlb_fill_replacement_witness:
  "fst (cb_tlbevent 7 hh0 8192 16 \<lparr>paddr = 0, perms = 0\<rparr> \<lparr>ret = 4099, thrown = None\<rparr> w0) =
     (True, \<lparr>paddr = 4096, perms = 3\<rparr>) \<and>
   fst (cb_tlbevent 7 hh0 8192 16 \<lparr>paddr = 0, perms = 0\<rparr> \<lparr>ret = - 1, thrown = None\<rparr> w0) =
     (False, \<lparr>paddr = 0, perms = 0\<rparr>)"
  using tlb_fill_replacement
      [of "\<lparr>ret = 4099, thrown = None\<rparr>" w0 7 hh0 8192 16 "\<lparr>paddr = 0, perms = 0\<rparr>"]
    tlb_fill_replacement
      [of "\<lparr>ret = - 1, thrown = None\<rparr>" w0 7 hh0 8192 16 "\<lparr>paddr = 0, perms = 0\<rparr>"]
  by (simp add: w0_def)

lemma quiet_after_check:
  assumes "trace w1 = trace w @ es" and "\<not> list_ex host_event es" and "Fault \<notin> set es"
  shows "\<not> list_ex host_event (new_events w (snd (hookErrorCheck w1))) \<and>
         Fault \<notin> set (new_events w (snd (hookErrorCheck w1)))"
  using assms by (simp add: new_events_def hookErrorCheck_trace host_event_def)

text \<open>
  C9. The edge-generation trampoline short-circuits. When the descriptor of the
  current translation block cannot be built, or that of the previous one (a null block
  is one way for that to happen), the trampoline is exactly its error check on the world
  the failed construction left: the host callback is not called, nothing faults, and the
  trampoline returns.
\<close>

theorem edge_gen_short_circuit:
  assumes "fst (makeTranslationBlock cur w) = None \<or>
           fst (makeTranslationBlock prev (snd (makeTranslationBlock cur w))) = None"
  shows "cb_edge_gen hh cur prev h w =
           snd (hookErrorCheck
             (if fst (makeTranslationBlock cur w) = None then snd (makeTranslationBlock cur w)
              else snd (makeTranslationBlock prev (snd (makeTranslationBlock cur w))))) \<and>
         \<not> list_ex host_event (new_events w (cb_edge_gen hh cur prev h w)) \<and>
         Fault \<notin> set (new_events w (cb_edge_gen hh cur prev h w)) \<and>
         fst (makeTranslationBlock None w) = None"
proof -
  let ?w1 = "snd (makeTranslationBlock cur w)"
  let ?w2 = "snd (makeTranslationBlock prev ?w1)"
  obtain es1 es2 where t: "trace ?w1 = trace w @ es1" "\<not> list_ex host_event es1" "Fault \<notin> set es1"
     "trace ?w2 = trace ?w1 @ es2" "\<not> list_ex host_event es2" "Fault \<notin> set es2"
    using makeTranslationBlock_quiet by metis
  then have t2: "trace ?w2 = trace w @ (es1 @ es2)" "\<not> list_ex host_event (es1 @ es2)"
    "Fault \<notin> set (es1 @ es2)" by simp_all
  have eq: "cb_edge_gen hh cur prev h w =
      snd (hookErrorCheck (if fst (makeTranslationBlock cur w) = None then ?w1 else ?w2))"
    using assms by (auto simp add: cb_edge_gen_def unpair)
  show ?thesis
    using quiet_after_check [OF t(1,2,3)] quiet_after_check [OF t2]
    by (simp add: eq makeTranslationBlock_def)
qed

theorem edge_gen_short_circuit_witness:
  "cb_edge_gen hh0 (Some \<lparr>pc = 4096, icount = 1, tb_size = 4\<rparr>) None
      \<lparr>ret = 0, thrown = Some (HostThrowable 0)\<rparr> w0 =
     snd (hookErrorCheck (snd (makeTranslationBlock None
       (snd (makeTranslationBlock (Some \<lparr>pc = 4096, icount = 1, tb_size = 4\<rparr>) w0))))) \<and>
   new_events w0 (cb_edge_gen hh0 (Some \<lparr>pc = 4096, icount = 1, tb_size = 4\<rparr>) None
      \<lparr>ret = 0, thrown = Some (HostThrowable 0)\<rparr> w0) = [RefCreated 0]"
proof -
  have mk: "fst (makeTranslationBlock (Some \<lparr>pc = 4096, icount = 1, tb_size = 4\<rparr>) w0) \<noteq> None"
    by (simp add: makeTranslationBlock_def static_ctor_def static_clazz_def FindClass_def
        NewGlobalRef_def GetMethodID_def NewObject_def set_clazz_def set_clazzInit_def
        env_ok_def unpair w0_def)
  have ev: "trace (snd (makeTranslationBlock (Some \<lparr>pc = 4096, icount = 1, tb_size = 4\<rparr>) w0)) =
      [RefCreated 0]"
    by (simp add: makeTranslationBlock_def static_ctor_def static_clazz_def FindClass_def
        NewGlobalRef_def GetMethodID_def NewObject_def set_clazz_def set_clazzInit_def
        env_ok_def unpair w0_def log_def)
  have pe: "pending (snd (makeTranslationBlock (Some \<lparr>pc = 4096, icount = 1, tb_size = 4\<rparr>) w0)) = None"
    using makeTranslationBlock_ok [OF mk] by (simp add: w0_def)
  show ?thesis
    using edge_gen_short_circuit
      [of "Some \<lparr>pc = 4096, icount = 1, tb_size = 4\<rparr>" w0 None hh0
          "\<lparr>ret = 0, thrown = Some (HostThrowable 0)\<rparr>"]
      mk ev pe
    by (simp add: makeTranslationBlock_def [of None] new_events_def hookErrorCheck_trace w0_def)
qed


section \<open>Callback registration registry\<close>

lemma map_filter_append: "List.map_filter f (xs @ ys) = List.map_filter f xs @ List.map_filter f ys"
  by (simp add: List.map_filter_def)

lemma obs_append [simp]:
  "refs_created (xs @ ys) = refs_created xs @ refs_created ys"
  "refs_deleted (xs @ ys) = refs_deleted xs @ refs_deleted ys"
  "allocated (xs @ ys) = allocated xs @ allocated ys"
  "freed (xs @ ys) = freed xs @ freed ys"
  "checked_statuses (xs @ ys) = checked_statuses xs @ checked_statuses ys"
  by (simp_all add: refs_created_def refs_deleted_def allocated_def freed_def checked_statuses_def
      map_filter_append)

lemma obs_Nil [simp]:
  "refs_created [] = []" "refs_deleted [] = []" "allocated [] = []" "freed [] = []"
  "checked_statuses [] = []"
  by (simp_all add: refs_created_def refs_deleted_def allocated_def freed_def checked_statuses_def
      List.map_filter_simps)

lemma obs_Cons [simp]:
  "refs_created (e # es) = (case e of RefCreated r \<Rightarrow> [r] | _ \<Rightarrow> []) @ refs_created es"
  "refs_deleted (e # es) = (case e of RefDeleted r \<Rightarrow> [r] | _ \<Rightarrow> []) @ refs_deleted es"
  "allocated (e # es) = (case e of Allocated p \<Rightarrow> [p] | _ \<Rightarrow> []) @ allocated es"
  "freed (e # es) = (case e of Freed p \<Rightarrow> [p] | _ \<Rightarrow> []) @ freed es"
  "checked_statuses (e # es) =
     (case e of Native f st \<Rightarrow> (if dropped f then [] else [st]) | _ \<Rightarrow> []) @ checked_statuses es"
  by (simp_all add: refs_created_def refs_deleted_def allocated_def freed_def checked_statuses_def
      List.map_filter_simps split: event.splits)

lemma obs_map_RefDeleted [simp]:
  "refs_deleted (map RefDeleted rs) = rs" "refs_created (map RefDeleted rs) = []"
  "allocated (map RefDeleted rs) = []" "freed (map RefDeleted rs) = []"
  "checked_statuses (map RefDeleted rs) = []"
  by (induction rs) simp_all

lemma obs_map_RefCreated [simp]:
  "refs_created (map RefCreated rs) = rs" "refs_deleted (map RefCreated rs) = []"
  "allocated (map RefCreated rs) = []" "freed (map RefCreated rs) = []"
  "checked_statuses (map RefCreated rs) = []"
  by (induction rs) simp_all

lemma NewGlobalRef_fst:
  "fst (NewGlobalRef obj w) = (if obj \<noteq> None \<and> fst (env_ok w) then Some (next_gref w) else None)"
  by (simp add: NewGlobalRef_def unpair)

lemma NewGlobalRef_fields [simp]:
  "trace (snd (NewGlobalRef obj w)) =
     trace w @ (case fst (NewGlobalRef obj w) of None \<Rightarrow> [] | Some r \<Rightarrow> [RefCreated r])"
  "next_gref (snd (NewGlobalRef obj w)) =
     (case fst (NewGlobalRef obj w) of None \<Rightarrow> next_gref w | Some r \<Rightarrow> Suc (next_gref w))"
  "heap (snd (NewGlobalRef obj w)) = heap w"
  "brk (snd (NewGlobalRef obj w)) = brk w"
  "uc_fate (snd (NewGlobalRef obj w)) = uc_fate w"
  "uc_strerror (snd (NewGlobalRef obj w)) = uc_strerror w"
  "byte_arrays (snd (NewGlobalRef obj w)) = byte_arrays w"
  "long_arrays (snd (NewGlobalRef obj w)) = long_arrays w"
  "jni_fate (snd (NewGlobalRef obj w)) = (if obj = None then jni_fate w else tl (jni_fate w))"
  by (simp_all add: NewGlobalRef_def unpair)

lemma calloc_fst: "fst (calloc w) = (if fst (env_ok w) then Some (Suc (brk w)) else None)"
  by (simp add: calloc_def unpair)

lemma calloc_fields [simp]:
  "trace (snd (calloc w)) = trace w @ (if fst (env_ok w) then [Allocated (Suc (brk w))] else [])"
  "heap (snd (calloc w)) = (if fst (env_ok w) then (heap w)(Suc (brk w) \<mapsto> zeroed) else heap w)"
  "brk (snd (calloc w)) = (if fst (env_ok w) then Suc (brk w) else brk w)"
  "next_gref (snd (calloc w)) = next_gref w"
  "pending (snd (calloc w)) = pending w"
  "uc_fate (snd (calloc w)) = uc_fate w"
  "uc_strerror (snd (calloc w)) = uc_strerror w"
  "byte_arrays (snd (calloc w)) = byte_arrays w"
  "long_arrays (snd (calloc w)) = long_arrays w"
  "jni_fate (snd (calloc w)) = tl (jni_fate w)"
  by (simp_all add: calloc_def unpair)

lemma deleteHookWrapper_live:
  assumes "heap w p = Some h"
  shows "trace (deleteHookWrapper (Some p) w) = trace w @ map RefDeleted (held h) @ [Freed p]"
    and "heap (deleteHookWrapper (Some p) w) = (heap w)(p := None)"
    and "pending (deleteHookWrapper (Some p) w) = pending w"
    and "brk (deleteHookWrapper (Some p) w) = brk w"
    and "next_gref (deleteHookWrapper (Some p) w) = next_gref w"
    and "jni_fate (deleteHookWrapper (Some p) w) = jni_fate w"
    and "uc_fate (deleteHookWrapper (Some p) w) = uc_fate w"
    and "uc_strerror (deleteHookWrapper (Some p) w) = uc_strerror w"
    and "byte_arrays (deleteHookWrapper (Some p) w) = byte_arrays w"
    and "long_arrays (deleteHookWrapper (Some p) w) = long_arrays w"
  using assms
  by (simp_all add: deleteHookWrapper_def held_def List.map_filter_simps Let_def split: option.splits)

lemma deleteHookWrapper_null [simp]: "deleteHookWrapper None w = w"
  by (simp add: deleteHookWrapper_def)

lemma deleteHookWrapper_frame [simp]:
  "pending (deleteHookWrapper hh w) = pending w"
  "uc_strerror (deleteHookWrapper hh w) = uc_strerror w"
  "jni_fate (deleteHookWrapper hh w) = jni_fate w"
  "uc_fate (deleteHookWrapper hh w) = uc_fate w"
  "brk (deleteHookWrapper hh w) = brk w"
  "next_gref (deleteHookWrapper hh w) = next_gref w"
  "byte_arrays (deleteHookWrapper hh w) = byte_arrays w"
  "long_arrays (deleteHookWrapper hh w) = long_arrays w"
  by (simp_all add: deleteHookWrapper_def Let_def split: option.splits)

lemma GetMethodID_fst: "fst (GetMethodID n sg w) = (if fst (env_ok w) then Some (n, sg) else None)"
  by (simp add: GetMethodID_def unpair)

lemma GetMethodID_fields [simp]:
  "trace (snd (GetMethodID n sg w)) = trace w"
  "heap (snd (GetMethodID n sg w)) = heap w"
  "brk (snd (GetMethodID n sg w)) = brk w"
  "next_gref (snd (GetMethodID n sg w)) = next_gref w"
  "uc_fate (snd (GetMethodID n sg w)) = uc_fate w"
  "uc_strerror (snd (GetMethodID n sg w)) = uc_strerror w"
  "byte_arrays (snd (GetMethodID n sg w)) = byte_arrays w"
  "long_arrays (snd (GetMethodID n sg w)) = long_arrays w"
  "jni_fate (snd (GetMethodID n sg w)) = tl (jni_fate w)"
  "pending (snd (GetMethodID n sg w)) = (if fst (env_ok w) then pending w else Some NoSuchMethodError)"
  by (simp_all add: GetMethodID_def unpair)

lemma throwOOM_fields [simp]:
  "trace (throwOutOfMemoryError m w) = trace w @ [Thrown (OutOfMemoryError m)]"
  "pending (throwOutOfMemoryError m w) = Some (OutOfMemoryError m)"
  "heap (throwOutOfMemoryError m w) = heap w"
  "brk (throwOutOfMemoryError m w) = brk w"
  "next_gref (throwOutOfMemoryError m w) = next_gref w"
  "uc_fate (throwOutOfMemoryError m w) = uc_fate w"
  "uc_strerror (throwOutOfMemoryError m w) = uc_strerror w"
  "jni_fate (throwOutOfMemoryError m w) = jni_fate w"
  "byte_arrays (throwOutOfMemoryError m w) = byte_arrays w"
  "long_arrays (throwOutOfMemoryError m w) = long_arrays w"
  by (simp_all add: throwOutOfMemoryError_def)


lemma deleteHookWrapper_Some:
  "trace (deleteHookWrapper (Some p) w) =
     (case heap w p of None \<Rightarrow> trace w @ [Fault]
      | Some h \<Rightarrow> trace w @ map RefDeleted (held h) @ [Freed p])"
  "heap (deleteHookWrapper (Some p) w) =
     (case heap w p of None \<Rightarrow> heap w | Some h \<Rightarrow> (heap w)(p := None))"
  by (simp_all add: deleteHookWrapper_def held_def List.map_filter_simps Let_def split: option.splits)

lemma held_simps [simp]:
  "held \<lparr>uc_hh = a, unicorn = u, hook_obj = c, hook_meth = m, user_data = d\<rparr> =
     (case u of None \<Rightarrow> [] | Some r \<Rightarrow> [r]) @ (case c of None \<Rightarrow> [] | Some r \<Rightarrow> [r])
     @ (case d of None \<Rightarrow> [] | Some r \<Rightarrow> [r])"
  by (simp add: held_def List.map_filter_simps split: option.splits)

lemma makeHookWrapper_shape:
  fixes self cb ud n sg w
  defines "r \<equiv> fst (makeHookWrapper self cb ud n sg w)"
    and "w1 \<equiv> snd (makeHookWrapper self cb ud n sg w)"
    and "p \<equiv> Suc (brk w)" and "g \<equiv> next_gref w"
  shows
   "(r = None \<and> trace w1 = trace w @ [Thrown (OutOfMemoryError ''Unable to allocate hook_wrapper'')]
       \<and> heap w1 = heap w \<and> brk w1 = brk w \<and> next_gref w1 = g) \<or>
    (r = None \<and> heap w1 = (heap w)(p := None) \<and> brk w1 = p \<and>
       (trace w1 = trace w @ [Allocated p, Freed p] \<and> next_gref w1 = g \<or>
        trace w1 = trace w @ [Allocated p, RefCreated g, RefDeleted g, Freed p] \<and> next_gref w1 = Suc g \<or>
        trace w1 = trace w @ [Allocated p, RefCreated g, RefCreated (Suc g), RefDeleted g,
                              RefDeleted (Suc g), Freed p] \<and> next_gref w1 = Suc (Suc g))) \<or>
    (r = Some p \<and> heap w1 = (heap w)(p \<mapsto> made n sg g ud) \<and> brk w1 = p \<and>
       trace w1 = trace w @ Allocated p # map RefCreated (held (made n sg g ud)) \<and>
       next_gref w1 = g + length (held (made n sg g ud)) \<and> pending w1 = pending w)"
  unfolding r_def w1_def p_def g_def
  by (auto simp add: makeHookWrapper_def unpair calloc_fst NewGlobalRef_fst GetMethodID_fst
      GetObjectClass_def zeroed_def deleteHookWrapper_Some env_ok_fst made_def
      split: if_splits)

lemma makeHookWrapper_frame [simp]:
  "uc_strerror (snd (makeHookWrapper self cb ud n sg w)) = uc_strerror w"
  "uc_fate (snd (makeHookWrapper self cb ud n sg w)) = uc_fate w"
  "byte_arrays (snd (makeHookWrapper self cb ud n sg w)) = byte_arrays w"
  "long_arrays (snd (makeHookWrapper self cb ud n sg w)) = long_arrays w"
  by (simp_all add: makeHookWrapper_def unpair GetObjectClass_def)

lemma makeHookWrapper_calm:
  "jni_fate w = [] \<Longrightarrow>
     jni_fate (snd (makeHookWrapper self cb ud n sg w)) = [] \<and>
     pending (snd (makeHookWrapper self cb ud n sg w)) = pending w"
  by (simp add: makeHookWrapper_def unpair calloc_fst NewGlobalRef_fst GetMethodID_fst
      GetObjectClass_def env_ok_fst)

lemma uc_hook_add_fields [simp]:
  "fst (uc_hook_add hh type cb b e args w) = status (fst (next_reply w))"
  "trace (snd (uc_hook_add hh type cb b e args w)) =
     trace w @ [Native (Uc_hook_add hh type cb b e args) (status (fst (next_reply w)))] @
       (if status (fst (next_reply w)) = UC_ERR_OK \<and>
           (case hh of None \<Rightarrow> True | Some p \<Rightarrow> heap w p = None)
        then [Fault] else [])"
  "pending (snd (uc_hook_add hh type cb b e args w)) =
     (case hook_thrown (fst (next_reply w)) of None \<Rightarrow> pending w | Some t \<Rightarrow> Some t)"
  "brk (snd (uc_hook_add hh type cb b e args w)) = brk w"
  "next_gref (snd (uc_hook_add hh type cb b e args w)) = next_gref w"
  "jni_fate (snd (uc_hook_add hh type cb b e args w)) = jni_fate w"
  "uc_strerror (snd (uc_hook_add hh type cb b e args w)) = uc_strerror w"
  "byte_arrays (snd (uc_hook_add hh type cb b e args w)) = byte_arrays w"
  "long_arrays (snd (uc_hook_add hh type cb b e args w)) = long_arrays w"
  by (auto simp add: uc_hook_add_def unpair uc_call_fst split: option.splits)

lemma uc_hook_add_heap:
  "heap (snd (uc_hook_add hh type cb b e args w)) =
     (case hh of
        None \<Rightarrow> heap w
      | Some p \<Rightarrow>
          (case heap w p of
             None \<Rightarrow> heap w
           | Some h \<Rightarrow>
               (if status (fst (next_reply w)) = UC_ERR_OK
                then (heap w)(p \<mapsto> h\<lparr>uc_hh := out_val (fst (next_reply w))\<rparr>) else heap w)))"
  by (simp add: uc_hook_add_def unpair uc_call_fst split: option.splits)

lemma subset_mask: "((x :: 'a::len word) AND NOT m = 0) = (x AND m = x)"
  by (auto simp add: bit_eq_iff bit_simps)

lemma hook_add_kind_None: "\<not> recognized_type H type \<Longrightarrow> hook_add_kind H type = None"
  by (auto simp add: recognized_type_def hook_add_kind_def subset_mask)

lemma hook_add_insn_None: "arg \<notin> set (insn_ids I) \<Longrightarrow> hook_add_insn I arg = None"
  by (simp add: insn_ids_def hook_add_insn_def)

lemma rejectedI: "rejected err w (None, throwUnicornException err w)"
  by (simp add: rejected_def new_events_def)

text \<open>
  C2, as amended. A registration call with a combination the binding does not know is
  turned away before anything else happens: the call returns \<^verbatim>\<open>0\<close>, its only act is to
  raise the engine's message for the status, no record is allocated and the engine is
  not called. The status is \<^verbatim>\<open>UC_ERR_HOOK\<close> for an unknown hook type in each of the three
  overloads, and \<^verbatim>\<open>UC_ERR_INSN_INVALID\<close> for an unknown instruction identifier under
  \<^verbatim>\<open>UC_HOOK_INSN\<close>.
\<close>

theorem unrecognized_registration_rejected:
  "(\<not> recognized_type H type \<longrightarrow>
      rejected UC_ERR_HOOK w (Unicorn_hook_add H self uc type cb ud b e w)) \<and>
   (type \<noteq> UC_HOOK_INSN H \<longrightarrow>
      rejected UC_ERR_HOOK w (Unicorn_hook_add_arg H I self uc type cb ud b e arg w)) \<and>
   (type = UC_HOOK_INSN H \<and> arg \<notin> set (insn_ids I) \<longrightarrow>
      rejected UC_ERR_INSN_INVALID w (Unicorn_hook_add_arg H I self uc type cb ud b e arg w)) \<and>
   (type \<noteq> UC_HOOK_TCG_OPCODE H \<longrightarrow>
      rejected UC_ERR_HOOK w (Unicorn_hook_add_arg2 H self uc type cb ud b e arg1 arg2 w))"
  by (simp add: Unicorn_hook_add_def Unicorn_hook_add_arg_def Unicorn_hook_add_arg2_def
      hook_add_kind_None hook_add_insn_None rejectedI)

lemma H0_simps [simp]:
  "UC_HOOK_INTR H0 = 1" "UC_HOOK_INSN H0 = 2" "UC_HOOK_CODE H0 = 4" "UC_HOOK_BLOCK H0 = 8"
  "UC_HOOK_MEM_INVALID H0 = 1008" "UC_HOOK_MEM_VALID H0 = 7168" "UC_HOOK_INSN_INVALID H0 = 16384"
  "UC_HOOK_EDGE_GENERATED H0 = 32768" "UC_HOOK_TCG_OPCODE H0 = 65536" "UC_HOOK_TLB_FILL H0 = 131072"
  by (simp_all add: H0_def)

lemma I0_simps [simp]:
  "UC_X86_INS_IN I0 = 218" "UC_X86_INS_OUT I0 = 500" "UC_X86_INS_SYSCALL I0 = 699"
  "UC_X86_INS_SYSENTER I0 = 700" "UC_X86_INS_CPUID I0 = 83" "UC_ARM64_INS_MRS I0 = 1"
  "UC_ARM64_INS_MSR I0 = 2" "UC_ARM64_INS_SYS I0 = 3" "UC_ARM64_INS_SYSL I0 = 4"
  by (simp_all add: I0_def)

lemma w0_simps [simp]:
  "pending w0 = None" "trace w0 = []" "heap w0 = Map.empty" "brk w0 = 0" "next_gref w0 = 0"
  "jni_fate w0 = []" "uc_fate w0 = []" "uc_strerror w0 = sample_strerror"
  by (simp_all add: w0_def)

theorem unrecognized_registration_rejected_witness:
  "rejected UC_ERR_HOOK w0 (Unicorn_hook_add H0 (Some 1) 0 3 (Some 2) None 1 0 w0) \<and>
   rejected UC_ERR_HOOK w0 (Unicorn_hook_add_arg H0 I0 (Some 1) 0 4 (Some 2) None 1 0 218 w0) \<and>
   rejected UC_ERR_INSN_INVALID w0 (Unicorn_hook_add_arg H0 I0 (Some 1) 0 2 (Some 2) None 1 0 0 w0) \<and>
   rejected UC_ERR_HOOK w0 (Unicorn_hook_add_arg2 H0 (Some 1) 0 4 (Some 2) None 1 0 0 0 w0) \<and>
   new_events w0 (snd (Unicorn_hook_add H0 (Some 1) 0 3 (Some 2) None 1 0 w0)) =
     [Thrown (UnicornException ''Invalid hook type (UC_ERR_HOOK)'')]"
  using unrecognized_registration_rejected
    [of H0 3 w0 "Some 1" 0 "Some 2" None 1 0 I0 0 0 0]
    unrecognized_registration_rejected
    [of H0 4 w0 "Some 1" 0 "Some 2" None 1 0 I0 218 0 0]
    unrecognized_registration_rejected
    [of H0 2 w0 "Some 1" 0 "Some 2" None 1 0 I0 0 0 0]
  by (simp add: recognized_type_def insn_ids_def rejected_def sample_strerror_def)

text \<open>
  C2 as stated fails for an unknown instruction identifier: identifier \<open>0\<close> under
  \<^verbatim>\<open>UC_HOOK_INSN\<close> is not turned away with the hook-kind status; the exception raised
  carries the message of \<^verbatim>\<open>UC_ERR_INSN_INVALID\<close>.
\<close>

theorem hook_kind_error_counterexample:
  "0 \<notin> set (insn_ids I0) \<and>
   \<not> rejected UC_ERR_HOOK w0 (Unicorn_hook_add_arg H0 I0 (Some 1) 0 (UC_HOOK_INSN H0) (Some 2) None 1 0 0 w0) \<and>
   pending (snd (Unicorn_hook_add_arg H0 I0 (Some 1) 0 (UC_HOOK_INSN H0) (Some 2) None 1 0 0 w0)) =
     Some (UnicornException ''Invalid instruction (UC_ERR_INSN_INVALID)'') \<and>
   uc_strerror w0 UC_ERR_HOOK = ''Invalid hook type (UC_ERR_HOOK)''"
  by (simp add: Unicorn_hook_add_arg_def hook_add_insn_def insn_ids_def rejected_def
      sample_strerror_def)

lemma hook_add_tail_registered:
  assumes "fst (hook_add_tail self type cb ud b e args sg tr w) \<noteq> None"
  shows "registered sg tr type args (hook_add_tail self type cb ud b e args sg tr w)"
  using makeHookWrapper_shape [of self cb ud "''hook''" sg w] assms
  by (auto simp add: hook_add_tail_def unpair registered_def uc_hook_add_heap made_def
      split: if_splits)

lemma sig_distinct:
  "distinct [sig_InHook, sig_OutHook, sig_SyscallHook, sig_CpuidHook, sig_Arm64SysHook]"
  by (simp add: sig_InHook_def sig_OutHook_def sig_SyscallHook_def sig_CpuidHook_def
      sig_Arm64SysHook_def)

text \<open>A registration in a world where the JVM and libc serve every request, the
  engine facade and the callback are not \<^verbatim>\<open>NULL\<close>, and the engine accepts: the record
  is built and its handle returned.\<close>

lemma makeHookWrapper_success:
  assumes "jni_fate w = []" and "self \<noteq> None" and "cb \<noteq> None"
  shows "fst (makeHookWrapper self cb ud n sg w) = Some (Suc (brk w))"
    and "heap (snd (makeHookWrapper self cb ud n sg w)) =
           (heap w)(Suc (brk w) \<mapsto> made n sg (next_gref w) ud)"
    and "trace (snd (makeHookWrapper self cb ud n sg w)) =
           trace w @ Allocated (Suc (brk w)) # map RefCreated (held (made n sg (next_gref w) ud))"
    and "brk (snd (makeHookWrapper self cb ud n sg w)) = Suc (brk w)"
    and "next_gref (snd (makeHookWrapper self cb ud n sg w)) =
           next_gref w + length (held (made n sg (next_gref w) ud))"
proof -
  have "fst (makeHookWrapper self cb ud n sg w) \<noteq> None"
    using assms
    by (auto simp add: makeHookWrapper_def unpair calloc_fst NewGlobalRef_fst GetMethodID_fst
        GetObjectClass_def env_ok_fst)
  with makeHookWrapper_shape [of self cb ud n sg w]
  show "fst (makeHookWrapper self cb ud n sg w) = Some (Suc (brk w))"
    and "heap (snd (makeHookWrapper self cb ud n sg w)) =
           (heap w)(Suc (brk w) \<mapsto> made n sg (next_gref w) ud)"
    and "trace (snd (makeHookWrapper self cb ud n sg w)) =
           trace w @ Allocated (Suc (brk w)) # map RefCreated (held (made n sg (next_gref w) ud))"
    and "brk (snd (makeHookWrapper self cb ud n sg w)) = Suc (brk w)"
    and "next_gref (snd (makeHookWrapper self cb ud n sg w)) =
           next_gref w + length (held (made n sg (next_gref w) ud))"
    by auto
qed

lemma hook_add_tail_accepts:
  assumes "jni_fate w = []" and "self \<noteq> None" and "cb \<noteq> None"
    and "status (fst (next_reply w)) = UC_ERR_OK"
  shows "fst (hook_add_tail self type cb ud b e args sg tr w) = Some (Suc (brk w))"
  using assms makeHookWrapper_success [OF assms(1-3), of ud "''hook''" sg]
  by (simp add: hook_add_tail_def unpair next_reply_status)

text \<open>
  C8. Under the one event type \<^verbatim>\<open>UC_HOOK_INSN\<close> the instruction identifier selects the
  shape. With the nine identifiers distinct (they are the labels of one \<^verbatim>\<open>switch\<close>),
  the \<^verbatim>\<open>switch\<close> maps each of them to the signature and the trampoline of its shape
  --- port in, port out, syscall/sysenter, cpuid, and the four ARM64 system-register
  instructions --- and a registration with any of them returns the handle of a fresh
  record when the JVM and libc serve every request, the engine facade and the callback
  are not \<^verbatim>\<open>NULL\<close>, and the engine accepts. Whenever the call returns a handle, the
  record's method was resolved for the signature of the identifier's shape and the engine
  was handed that shape's trampoline; the five signatures and the five trampolines are
  pairwise different. Any other identifier is turned away with
  \<^verbatim>\<open>UC_ERR_INSN_INVALID\<close> before a record is allocated or the engine called.
\<close>

theorem insn_id_selects_shape:
  fixes H I self uc type cb ud b e arg w
  defines "R \<equiv> Unicorn_hook_add_arg H I self uc type cb ud b e arg w"
  assumes "type = UC_HOOK_INSN H" and "distinct (insn_ids I)"
  shows
   "hook_add_insn I (UC_X86_INS_IN I) = Some (sig_InHook, cb_insn_in_p) \<and>
    hook_add_insn I (UC_X86_INS_OUT I) = Some (sig_OutHook, cb_insn_out_p) \<and>
    hook_add_insn I (UC_X86_INS_SYSCALL I) = Some (sig_SyscallHook, cb_insn_syscall_p) \<and>
    hook_add_insn I (UC_X86_INS_SYSENTER I) = Some (sig_SyscallHook, cb_insn_syscall_p) \<and>
    hook_add_insn I (UC_X86_INS_CPUID I) = Some (sig_CpuidHook, cb_insn_cpuid_p) \<and>
    hook_add_insn I (UC_ARM64_INS_MRS I) = Some (sig_Arm64SysHook, cb_insn_sys_p) \<and>
    hook_add_insn I (UC_ARM64_INS_MSR I) = Some (sig_Arm64SysHook, cb_insn_sys_p) \<and>
    hook_add_insn I (UC_ARM64_INS_SYS I) = Some (sig_Arm64SysHook, cb_insn_sys_p) \<and>
    hook_add_insn I (UC_ARM64_INS_SYSL I) = Some (sig_Arm64SysHook, cb_insn_sys_p) \<and>
    (arg \<in> set (insn_ids I) \<and> jni_fate w = [] \<and> self \<noteq> None \<and> cb \<noteq> None \<and>
       status (fst (next_reply w)) = UC_ERR_OK \<longrightarrow> fst R = Some (Suc (brk w))) \<and>
    (arg = UC_X86_INS_IN I \<and> fst R \<noteq> None \<longrightarrow> registered sig_InHook cb_insn_in_p type [arg] R) \<and>
    (arg = UC_X86_INS_OUT I \<and> fst R \<noteq> None \<longrightarrow> registered sig_OutHook cb_insn_out_p type [arg] R) \<and>
    ((arg = UC_X86_INS_SYSCALL I \<or> arg = UC_X86_INS_SYSENTER I) \<and> fst R \<noteq> None \<longrightarrow>
        registered sig_SyscallHook cb_insn_syscall_p type [arg] R) \<and>
    (arg = UC_X86_INS_CPUID I \<and> fst R \<noteq> None \<longrightarrow> registered sig_CpuidHook cb_insn_cpuid_p type [arg] R) \<and>
    ((arg = UC_ARM64_INS_MRS I \<or> arg = UC_ARM64_INS_MSR I \<or> arg = UC_ARM64_INS_SYS I
        \<or> arg = UC_ARM64_INS_SYSL I) \<and> fst R \<noteq> None \<longrightarrow>
        registered sig_Arm64SysHook cb_insn_sys_p type [arg] R) \<and>
    (arg \<notin> set (insn_ids I) \<longrightarrow> rejected UC_ERR_INSN_INVALID w R) \<and>
    distinct [sig_InHook, sig_OutHook, sig_SyscallHook, sig_CpuidHook, sig_Arm64SysHook] \<and>
    distinct [cb_insn_in_p, cb_insn_out_p, cb_insn_syscall_p, cb_insn_cpuid_p, cb_insn_sys_p]"
proof -
  have tail: "\<And>sg tr. hook_add_insn I arg = Some (sg, tr) \<Longrightarrow> fst R \<noteq> None \<Longrightarrow>
      registered sg tr type [arg] R"
    using hook_add_tail_registered [of self type cb ud b e "[arg]" _ _ w] assms(2)
    by (simp add: R_def Unicorn_hook_add_arg_def)
  have rej: "arg \<notin> set (insn_ids I) \<Longrightarrow> rejected UC_ERR_INSN_INVALID w R"
    using assms(2) by (simp add: R_def Unicorn_hook_add_arg_def hook_add_insn_None rejectedI)
  have sel:
    "\<And>a. a = UC_X86_INS_IN I \<Longrightarrow> hook_add_insn I a = Some (sig_InHook, cb_insn_in_p)"
    "\<And>a. a = UC_X86_INS_OUT I \<Longrightarrow> hook_add_insn I a = Some (sig_OutHook, cb_insn_out_p)"
    "\<And>a. a = UC_X86_INS_SYSCALL I \<or> a = UC_X86_INS_SYSENTER I \<Longrightarrow>
       hook_add_insn I a = Some (sig_SyscallHook, cb_insn_syscall_p)"
    "\<And>a. a = UC_X86_INS_CPUID I \<Longrightarrow> hook_add_insn I a = Some (sig_CpuidHook, cb_insn_cpuid_p)"
    "\<And>a. a = UC_ARM64_INS_MRS I \<or> a = UC_ARM64_INS_MSR I \<or> a = UC_ARM64_INS_SYS I
       \<or> a = UC_ARM64_INS_SYSL I \<Longrightarrow> hook_add_insn I a = Some (sig_Arm64SysHook, cb_insn_sys_p)"
    using assms(3) by (auto simp add: insn_ids_def hook_add_insn_def)
  have some: "arg \<in> set (insn_ids I) \<Longrightarrow> \<exists>sg tr. hook_add_insn I arg = Some (sg, tr)"
    using sel [of arg] by (auto simp add: insn_ids_def)
  have acc: "arg \<in> set (insn_ids I) \<and> jni_fate w = [] \<and> self \<noteq> None \<and> cb \<noteq> None \<and>
       status (fst (next_reply w)) = UC_ERR_OK \<longrightarrow> fst R = Some (Suc (brk w))"
  proof (intro impI, elim conjE)
    assume a: "arg \<in> set (insn_ids I)" "jni_fate w = []" "self \<noteq> None" "cb \<noteq> None"
      "status (fst (next_reply w)) = UC_ERR_OK"
    from some [OF a(1)] obtain sg tr where st: "hook_add_insn I arg = Some (sg, tr)" by blast
    show "fst R = Some (Suc (brk w))"
      using hook_add_tail_accepts [OF a(2-5), of type ud b e "[arg]" sg tr] st assms(2)
      by (simp add: R_def Unicorn_hook_add_arg_def)
  qed
  show ?thesis
    using tail [OF sel(1)] tail [OF sel(2)] tail [OF sel(3)] tail [OF sel(4)] tail [OF sel(5)]
      rej sig_distinct acc sel(1) [of "UC_X86_INS_IN I"] sel(2) [of "UC_X86_INS_OUT I"]
      sel(3) [of "UC_X86_INS_SYSCALL I"] sel(3) [of "UC_X86_INS_SYSENTER I"]
      sel(4) [of "UC_X86_INS_CPUID I"] sel(5) [of "UC_ARM64_INS_MRS I"]
      sel(5) [of "UC_ARM64_INS_MSR I"] sel(5) [of "UC_ARM64_INS_SYS I"]
      sel(5) [of "UC_ARM64_INS_SYSL I"]
    by simp
qed

lemma makeHookWrapper_w0:
  "makeHookWrapper (Some a) (Some c) None n sg w0 =
     (Some 1, w0\<lparr>trace := [Allocated 1, RefCreated 0, RefCreated 1], brk := 1, next_gref := 2,
        heap := [1 \<mapsto> made n sg 0 None]\<rparr>)"
  by (simp add: makeHookWrapper_def calloc_def NewGlobalRef_def GetObjectClass_def GetMethodID_def
      env_ok_def store_def log_def zeroed_def made_def w0_def)

theorem insn_id_selects_shape_witness:
  "registered sig_CpuidHook cb_insn_cpuid_p 2 [83]
     (Unicorn_hook_add_arg H0 I0 (Some 1) 0 2 (Some 2) None 1 0 83 w0) \<and>
   fst (Unicorn_hook_add_arg H0 I0 (Some 1) 0 2 (Some 2) None 1 0 83 w0) = Some 1 \<and>
   registered sig_InHook cb_insn_in_p 2 [218]
     (Unicorn_hook_add_arg H0 I0 (Some 1) 0 2 (Some 2) None 1 0 218 w0) \<and>
   fst (Unicorn_hook_add_arg H0 I0 (Some 1) 0 2 (Some 2) None 1 0 218 w0) = Some 1 \<and>
   hook_add_insn I0 3 = Some (sig_Arm64SysHook, cb_insn_sys_p) \<and>
   rejected UC_ERR_INSN_INVALID w0 (Unicorn_hook_add_arg H0 I0 (Some 1) 0 2 (Some 2) None 1 0 5 w0)"
  using insn_id_selects_shape [where type = 2 and H = H0 and I = I0 and self = "Some 1"
        and uc = 0 and cb = "Some 2" and ud = None and b = 1 and e = 0 and arg = 83 and w = w0]
    insn_id_selects_shape [where type = 2 and H = H0 and I = I0 and self = "Some 1"
        and uc = 0 and cb = "Some 2" and ud = None and b = 1 and e = 0 and arg = 218 and w = w0]
    insn_id_selects_shape [where type = 2 and H = H0 and I = I0 and self = "Some 1"
        and uc = 0 and cb = "Some 2" and ud = None and b = 1 and e = 0 and arg = 5 and w = w0]
  by (simp add: insn_ids_def next_reply_status)

text \<open>
  C4 does not hold of the code. The three \<^verbatim>\<open>_hook_add\<close> overloads do not test the
  result of \<^verbatim>\<open>makeHookWrapper\<close> (\<^verbatim>\<open>_mmio_map\<close> does): when the record could not be
  built --- here because \<^verbatim>\<open>calloc\<close> fails, and because the method lookup fails ---
  the call goes on to \<^verbatim>\<open>uc_hook_add\<close> with the null record, and the engine, if it
  accepts, keeps a registration whose user data is \<^verbatim>\<open>NULL\<close> and stores the hook
  handle through the null record, a native fault.
\<close>

theorem hook_add_uses_failed_record:
  "fst (makeHookWrapper (Some 1) (Some 2) None ''hook'' sig_CodeHook (w0\<lparr>jni_fate := [False]\<rparr>)) = None \<and>
   trace (snd (Unicorn_hook_add H0 (Some 1) 0 4 (Some 2) None 1 0 (w0\<lparr>jni_fate := [False]\<rparr>))) =
     [Thrown (OutOfMemoryError ''Unable to allocate hook_wrapper''),
      Native (Uc_hook_add None 4 cb_hookcode_p 1 0 []) UC_ERR_OK, Fault] \<and>
   fst (makeHookWrapper (Some 1) (Some 2) None ''hook'' sig_CodeHook
         (w0\<lparr>jni_fate := [True, True, True, True, False]\<rparr>)) = None \<and>
   trace (snd (Unicorn_hook_add H0 (Some 1) 0 4 (Some 2) None 1 0
         (w0\<lparr>jni_fate := [True, True, True, True, False]\<rparr>))) =
     [Allocated 1, RefCreated 0, RefCreated 1, RefDeleted 0, RefDeleted 1, Freed 1,
      Native (Uc_hook_add None 4 cb_hookcode_p 1 0 []) UC_ERR_OK, Fault]"
  by (simp add: Unicorn_hook_add_def hook_add_kind_def hook_add_tail_def makeHookWrapper_def
      calloc_def NewGlobalRef_def GetObjectClass_def GetMethodID_def env_ok_def store_def
      zeroed_def uc_hook_add_def uc_call_def next_reply_def ok_reply_def
      throwOutOfMemoryError_def ThrowNew_def deleteHookWrapper_def free_def DeleteGlobalRef_def
      log_def w0_def Let_def)

lemma hook_del_live:
  assumes "heap w p = Some h"
  shows "trace (Unicorn_hook_del uc (Some p) w) =
           trace w @ Native (Uc_hook_del (uc_hh h)) (status (fst (next_reply w))) # map RefDeleted (held h)"
    and "heap (Unicorn_hook_del uc (Some p) w) =
           (heap w)(p \<mapsto> h\<lparr>unicorn := None, hook_obj := None, user_data := None\<rparr>)"
    and "pending (Unicorn_hook_del uc (Some p) w) =
           (case hook_thrown (fst (next_reply w)) of None \<Rightarrow> pending w | Some t \<Rightarrow> Some t)"
proof -
  obtain a u c m d where h: "h = \<lparr>uc_hh = a, unicorn = u, hook_obj = c, hook_meth = m, user_data = d\<rparr>"
    by (cases h)
  show "trace (Unicorn_hook_del uc (Some p) w) =
           trace w @ Native (Uc_hook_del (uc_hh h)) (status (fst (next_reply w))) # map RefDeleted (held h)"
    and "heap (Unicorn_hook_del uc (Some p) w) =
           (heap w)(p \<mapsto> h\<lparr>unicorn := None, hook_obj := None, user_data := None\<rparr>)"
    and "pending (Unicorn_hook_del uc (Some p) w) =
           (case hook_thrown (fst (next_reply w)) of None \<Rightarrow> pending w | Some t \<Rightarrow> Some t)"
    using assms unfolding h
    by (simp_all add: Unicorn_hook_del_def unpair uc_call_fst split: option.splits)
qed

lemma held_cleared [simp]: "held (h\<lparr>unicorn := None, hook_obj := None, user_data := None\<rparr>) = []"
  by (simp add: held_def List.map_filter_simps)

lemma held_uc_hh [simp]: "held (h\<lparr>uc_hh := x\<rparr>) = held h"
  by (simp add: held_def)

lemma held_made: "held (made n sg g ud) = (if ud = None then [g, Suc g] else [g, Suc g, Suc (Suc g)])"
  by (simp add: made_def split: option.splits)

lemma unregister_release:
  fixes uc :: jlong
  assumes "heap w p = Some h"
  defines "w1 \<equiv> Unicorn_hook_del uc (Some p) w"
  shows "new_events w w1 =
           Native (Uc_hook_del (uc_hh h)) (status (fst (next_reply w))) # map RefDeleted (held h)"
    and "heap w1 p = Some (h\<lparr>unicorn := None, hook_obj := None, user_data := None\<rparr>)"
    and "refs_deleted (new_events w1 (Unicorn_hook_del uc (Some p) w1)) = []"
    and "heap (Unicorn_hook_del uc (Some p) w1) = heap w1"
    and "new_events w1 (Unicorn_hookwrapper_free (Some p) w1) = [Freed p]"
    and "heap (Unicorn_hookwrapper_free (Some p) w1) p = None"
proof -
  let ?h' = "h\<lparr>unicorn := None, hook_obj := None, user_data := None\<rparr>"
  have h1: "heap w1 p = Some ?h'"
    unfolding w1_def by (simp add: hook_del_live(2) [OF assms(1)])
  show "new_events w w1 =
      Native (Uc_hook_del (uc_hh h)) (status (fst (next_reply w))) # map RefDeleted (held h)"
    unfolding w1_def by (simp add: new_events_def hook_del_live(1) [OF assms(1)])
  show "heap w1 p = Some ?h'" by (rule h1)
  show "refs_deleted (new_events w1 (Unicorn_hook_del uc (Some p) w1)) = []"
    by (simp add: new_events_def hook_del_live(1) [OF h1])
  show "heap (Unicorn_hook_del uc (Some p) w1) = heap w1"
    using h1 by (simp add: hook_del_live(2) [OF h1] fun_upd_idem)
  show "new_events w1 (Unicorn_hookwrapper_free (Some p) w1) = [Freed p]"
    using h1 by (simp add: Unicorn_hookwrapper_free_def new_events_def deleteHookWrapper_Some)
  show "heap (Unicorn_hookwrapper_free (Some p) w1) p = None"
    using h1 by (simp add: Unicorn_hookwrapper_free_def deleteHookWrapper_Some)
qed

lemma register_unregister_release:
  fixes uc :: jlong
  assumes "fst (hook_add_tail self type cb ud b e args sg tr v) = Some q"
  defines "va \<equiv> snd (hook_add_tail self type cb ud b e args sg tr v)"
  defines "vc \<equiv> Unicorn_hookwrapper_free (Some q) (Unicorn_hook_del uc (Some q) va)"
  shows "refs_deleted (new_events v vc) = refs_created (new_events v vc) \<and>
         distinct (refs_deleted (new_events v vc)) \<and>
         allocated (new_events v vc) = [q] \<and> freed (new_events v vc) = [q] \<and>
         heap vc q = None \<and> Fault \<notin> set (new_events v vc)"
proof -
  let ?w1 = "snd (makeHookWrapper self cb ud ''hook'' sg v)"
  let ?m = "made ''hook'' sg (next_gref v) ud"
  from assms(1) makeHookWrapper_shape [of self cb ud "''hook''" sg v]
  have mk: "q = Suc (brk v)" "heap ?w1 = (heap v)(q \<mapsto> ?m)"
    "trace ?w1 = trace v @ Allocated q # map RefCreated (held ?m)"
    and ok: "status (fst (next_reply ?w1)) = UC_ERR_OK"
    by (auto simp add: hook_add_tail_def unpair split: if_splits)
  let ?h = "?m\<lparr>uc_hh := out_val (fst (next_reply ?w1))\<rparr>"
  have va: "heap va q = Some ?h"
    "trace va = trace v @ Allocated q # map RefCreated (held ?m)
       @ [Native (Uc_hook_add (Some q) type tr b e args) UC_ERR_OK]"
    using mk ok assms(1)
    by (auto simp add: va_def hook_add_tail_def unpair uc_hook_add_heap split: if_splits)
  let ?vb = "Unicorn_hook_del uc (Some q) va"
  have vb: "heap ?vb q = Some (?h\<lparr>unicorn := None, hook_obj := None, user_data := None\<rparr>)"
    "trace ?vb = trace va @ Native (Uc_hook_del (uc_hh ?h)) (status (fst (next_reply va)))
        # map RefDeleted (held ?m)"
    using hook_del_live [OF va(1), of uc] by simp_all
  have vc: "trace vc = trace ?vb @ [Freed q]" "heap vc q = None"
    using vb(1) by (simp_all add: vc_def Unicorn_hookwrapper_free_def deleteHookWrapper_Some)
  show ?thesis
    using vc vb(2) va(2) by (auto simp add: new_events_def held_made)
qed

text \<open>
  C7. Unregistering a live record first detaches the native hook (the record's
  \<^verbatim>\<open>uc_hh\<close> goes to \<^verbatim>\<open>uc_hook_del\<close>), then releases each reference the record holds,
  in field order, and leaves the three fields cleared. Unregistering again releases
  nothing and leaves the record as it is; releasing the record's storage afterwards
  deletes no reference and frees the record. After any registration that returned a
  handle (the three \<^verbatim>\<open>_hook_add\<close> overloads share \<open>hook_add_tail\<close>), unregister followed
  by release has deleted exactly the references the registration created, none of them
  twice, freed the one record allocated, and nothing faulted.
\<close>

theorem hook_del_releases_once:
  fixes uc :: jlong
  shows
   "(heap w p = Some h \<longrightarrow>
       (let w1 = Unicorn_hook_del uc (Some p) w in
          new_events w w1 =
            Native (Uc_hook_del (uc_hh h)) (status (fst (next_reply w))) # map RefDeleted (held h) \<and>
          heap w1 p = Some (h\<lparr>unicorn := None, hook_obj := None, user_data := None\<rparr>) \<and>
          refs_deleted (new_events w1 (Unicorn_hook_del uc (Some p) w1)) = [] \<and>
          heap (Unicorn_hook_del uc (Some p) w1) = heap w1 \<and>
          new_events w1 (Unicorn_hookwrapper_free (Some p) w1) = [Freed p] \<and>
          heap (Unicorn_hookwrapper_free (Some p) w1) p = None)) \<and>
    (fst (hook_add_tail self type cb ud b e args sg tr v) = Some q \<longrightarrow>
       (let vc = Unicorn_hookwrapper_free (Some q)
                   (Unicorn_hook_del uc (Some q) (snd (hook_add_tail self type cb ud b e args sg tr v)))
        in refs_deleted (new_events v vc) = refs_created (new_events v vc) \<and>
           distinct (refs_deleted (new_events v vc)) \<and>
           allocated (new_events v vc) = [q] \<and> freed (new_events v vc) = [q] \<and>
           heap vc q = None \<and> Fault \<notin> set (new_events v vc)))"
proof (intro conjI impI)
  assume "heap w p = Some h"
  from unregister_release [OF this, of uc]
  show "let w1 = Unicorn_hook_del uc (Some p) w in
          new_events w w1 =
            Native (Uc_hook_del (uc_hh h)) (status (fst (next_reply w))) # map RefDeleted (held h) \<and>
          heap w1 p = Some (h\<lparr>unicorn := None, hook_obj := None, user_data := None\<rparr>) \<and>
          refs_deleted (new_events w1 (Unicorn_hook_del uc (Some p) w1)) = [] \<and>
          heap (Unicorn_hook_del uc (Some p) w1) = heap w1 \<and>
          new_events w1 (Unicorn_hookwrapper_free (Some p) w1) = [Freed p] \<and>
          heap (Unicorn_hookwrapper_free (Some p) w1) p = None"
    unfolding Let_def by blast
next
  assume "fst (hook_add_tail self type cb ud b e args sg tr v) = Some q"
  from register_unregister_release [OF this, of uc]
  show "let vc = Unicorn_hookwrapper_free (Some q)
                   (Unicorn_hook_del uc (Some q) (snd (hook_add_tail self type cb ud b e args sg tr v)))
        in refs_deleted (new_events v vc) = refs_created (new_events v vc) \<and>
           distinct (refs_deleted (new_events v vc)) \<and>
           allocated (new_events v vc) = [q] \<and> freed (new_events v vc) = [q] \<and>
           heap vc q = None \<and> Fault \<notin> set (new_events v vc)"
    unfolding Let_def by blast
qed

lemma hook_add_tail_w0:
  "fst (hook_add_tail (Some a) type (Some c) None b e args sg tr w0) = Some 1"
  by (simp add: hook_add_tail_def makeHookWrapper_w0 unpair next_reply_def ok_reply_def)

theorem hook_del_releases_once_witness:
  "new_events (w0\<lparr>heap := [1 \<mapsto> hh0]\<rparr>) (Unicorn_hook_del 0 (Some 1) (w0\<lparr>heap := [1 \<mapsto> hh0]\<rparr>)) =
     [Native (Uc_hook_del 7) UC_ERR_OK, RefDeleted 10, RefDeleted 11, RefDeleted 12] \<and>
   refs_deleted (new_events w0 (Unicorn_hookwrapper_free (Some 1) (Unicorn_hook_del 0 (Some 1)
     (snd (hook_add_tail (Some 1) 4 (Some 2) None 1 0 [] sig_CodeHook cb_hookcode_p w0))))) =
   refs_created (new_events w0 (Unicorn_hookwrapper_free (Some 1) (Unicorn_hook_del 0 (Some 1)
     (snd (hook_add_tail (Some 1) 4 (Some 2) None 1 0 [] sig_CodeHook cb_hookcode_p w0)))))"
  using hook_del_releases_once [of "w0\<lparr>heap := [1 \<mapsto> hh0]\<rparr>" 1 hh0 0
      "Some 1" 4 "Some 2" None 1 0 "[]" sig_CodeHook cb_hookcode_p w0 1]
    hook_add_tail_w0 [of 1 4 2 1 0 "[]" sig_CodeHook cb_hookcode_p]
  by (simp add: Let_def hh0_def next_reply_def ok_reply_def)

lemma NewArray_fields [simp]:
  "fst (NewArray w) = fst (env_ok w)"
  "trace (snd (NewArray w)) = trace w"
  "heap (snd (NewArray w)) = heap w"
  "brk (snd (NewArray w)) = brk w"
  "next_gref (snd (NewArray w)) = next_gref w"
  "uc_fate (snd (NewArray w)) = uc_fate w"
  "uc_strerror (snd (NewArray w)) = uc_strerror w"
  "jni_fate (snd (NewArray w)) = tl (jni_fate w)"
  "byte_arrays (snd (NewArray w)) = byte_arrays w"
  "long_arrays (snd (NewArray w)) = long_arrays w"
  by (simp_all add: NewArray_def unpair)

lemma NewArray_calm: "jni_fate w = [] \<Longrightarrow> pending (snd (NewArray w)) = pending w"
  by (simp add: NewArray_def unpair)

text \<open>One optional target of \<^verbatim>\<open>_mmio_map\<close>: nothing happens without a callback.\<close>

lemma optional_wrapper_shape:
  fixes self cbk ud n sg w
  defines "X \<equiv> (case cbk of None \<Rightarrow> (None, w) | Some (_::nat) \<Rightarrow> makeHookWrapper self cbk ud n sg w)"
  defines "p \<equiv> Suc (brk w)" and "g \<equiv> next_gref w"
  shows
   "(cbk = None \<and> X = (None, w)) \<or>
    (cbk \<noteq> None \<and> fst X = None \<and>
       trace (snd X) = trace w @ [Thrown (OutOfMemoryError ''Unable to allocate hook_wrapper'')]
       \<and> heap (snd X) = heap w \<and> brk (snd X) = brk w \<and> next_gref (snd X) = g) \<or>
    (cbk \<noteq> None \<and> fst X = None \<and> heap (snd X) = (heap w)(p := None) \<and> brk (snd X) = p \<and>
       (trace (snd X) = trace w @ [Allocated p, Freed p] \<and> next_gref (snd X) = g \<or>
        trace (snd X) = trace w @ [Allocated p, RefCreated g, RefDeleted g, Freed p]
          \<and> next_gref (snd X) = Suc g \<or>
        trace (snd X) = trace w @ [Allocated p, RefCreated g, RefCreated (Suc g), RefDeleted g,
                              RefDeleted (Suc g), Freed p] \<and> next_gref (snd X) = Suc (Suc g))) \<or>
    (cbk \<noteq> None \<and> fst X = Some p \<and> heap (snd X) = (heap w)(p \<mapsto> made n sg g ud) \<and> brk (snd X) = p \<and>
       trace (snd X) = trace w @ Allocated p # map RefCreated (held (made n sg g ud)) \<and>
       next_gref (snd X) = g + length (held (made n sg g ud)))"
proof (cases cbk)
  case None
  then show ?thesis by (simp add: X_def)
next
  case (Some c)
  then show ?thesis
    using makeHookWrapper_shape [of self cbk ud n sg w]
    unfolding X_def p_def g_def by simp blast
qed


text \<open>What \<^verbatim>\<open>_mmio_map\<close> has undone when it returns \<^verbatim>\<open>NULL\<close>, and what it
  holds when it returns an array.\<close>

lemma mmio_map_unwinds:
  fixes self uc address sz rcb rud wcb wud w
  defines "R \<equiv> Unicorn_mmio_map self uc address sz rcb rud wcb wud w"
  defines "es \<equiv> new_events w (snd R)"
  shows
   "(fst R = None \<longrightarrow>
       distinct (refs_created es) \<and> distinct (refs_deleted es) \<and>
       set (refs_deleted es) = set (refs_created es) \<and>
       distinct (allocated es) \<and> distinct (freed es) \<and> set (freed es) = set (allocated es) \<and>
       (\<forall>q\<in>set (allocated es). heap (snd R) q = None) \<and>
       (\<forall>q. q \<notin> set (allocated es) \<longrightarrow> heap (snd R) q = heap w q) \<and>
       Fault \<notin> set es) \<and>
    (\<forall>hs. fst R = Some hs \<longrightarrow>
       hs = allocated es \<and> distinct hs \<and>
       length hs = (if rcb = None then 0 else 1) + (if wcb = None then 0 else 1) \<and>
       (\<forall>q\<in>set hs. heap (snd R) q \<noteq> None) \<and>
       refs_deleted es = [] \<and> freed es = [] \<and> checked_statuses es = [UC_ERR_OK]) \<and>
    (\<forall>f st. Native f st \<in> set es \<and> st \<noteq> UC_ERR_OK \<longrightarrow> fst R = None)"
proof -
  define A where "A = (case rcb of None \<Rightarrow> (None, w)
     | Some (_::nat) \<Rightarrow> makeHookWrapper self rcb rud ''read'' sig_MmioReadHandler w)"
  define B where "B = (case wcb of None \<Rightarrow> (None, snd A)
     | Some (_::nat) \<Rightarrow> makeHookWrapper self wcb wud ''write'' sig_MmioWriteHandler (snd A))"
  have R: "R = (if rcb \<noteq> None \<and> fst A = None then mmio_fail (fst A) None (snd A)
      else if wcb \<noteq> None \<and> fst B = None then mmio_fail (fst A) (fst B) (snd B)
      else if \<not> fst (env_ok (snd B)) then mmio_fail (fst A) (fst B) (snd (NewArray (snd B)))
      else if status (fst (next_reply (snd (NewArray (snd B))))) \<noteq> UC_ERR_OK
        then mmio_fail (fst A) (fst B)
          (throwUnicornException (status (fst (next_reply (snd (NewArray (snd B))))))
            (snd (uc_call (Uc_mmio_map (if fst A \<noteq> None then Some cb_mmio_read_p else None) (fst A)
                 (if fst B \<noteq> None then Some cb_mmio_write_p else None) (fst B))
                 (snd (NewArray (snd B))))))
      else (Some ((case fst A of None \<Rightarrow> [] | Some p \<Rightarrow> [p]) @ (case fst B of None \<Rightarrow> [] | Some p \<Rightarrow> [p])),
            snd (uc_call (Uc_mmio_map (if fst A \<noteq> None then Some cb_mmio_read_p else None) (fst A)
                 (if fst B \<noteq> None then Some cb_mmio_write_p else None) (fst B))
                 (snd (NewArray (snd B))))))"
    unfolding R_def Unicorn_mmio_map_def A_def B_def
    by (cases rcb; cases wcb; simp add: split_beta Let_def bool.case_eq_if uc_call_fst)
  note a = optional_wrapper_shape [where cbk = rcb and w = w and self = self and ud = rud
      and n = "''read''" and sg = sig_MmioReadHandler, folded A_def]
  note b = optional_wrapper_shape [where cbk = wcb and w = "snd A" and self = self and ud = wud
      and n = "''write''" and sg = sig_MmioWriteHandler, folded B_def]
  note leaf = mmio_fail_def deleteHookWrapper_Some new_events_def held_made
        uc_call_status next_reply_status dropped_def
  from a show ?thesis
  proof (elim disjE conjE)
    assume a0: "rcb = None" "A = (None, w)"
    from b show ?thesis
      unfolding es_def R
      by (elim disjE conjE) (use a0 in \<open>auto simp add: leaf\<close>)
  next
    assume a3: "rcb \<noteq> None" "fst A = Some (Suc (brk w))"
      "heap (snd A) = (heap w)(Suc (brk w) \<mapsto> made ''read'' sig_MmioReadHandler (next_gref w) rud)"
      "brk (snd A) = Suc (brk w)"
      "trace (snd A) = trace w @ Allocated (Suc (brk w))
         # map RefCreated (held (made ''read'' sig_MmioReadHandler (next_gref w) rud))"
      "next_gref (snd A) = next_gref w + length (held (made ''read'' sig_MmioReadHandler (next_gref w) rud))"
    from b show ?thesis
      unfolding es_def R
      by (elim disjE conjE) (use a3 in \<open>auto simp add: leaf\<close>)
  qed (auto simp add: es_def R leaf)
qed

text \<open>\<^verbatim>\<open>_mmio_map\<close> in a world where the JVM and libc serve every request and the
  engine accepts.\<close>

lemma mmio_map_accepts:
  fixes self uc address sz rcb rud wcb wud w
  defines "R \<equiv> Unicorn_mmio_map self uc address sz rcb rud wcb wud w"
  defines "p \<equiv> Suc (brk w)"
  defines "hr \<equiv> made ''read'' sig_MmioReadHandler (next_gref w) rud"
  defines "q \<equiv> (if rcb = None then p else Suc p)"
  defines "hw \<equiv> made ''write'' sig_MmioWriteHandler
                  (if rcb = None then next_gref w else next_gref w + length (held hr)) wud"
  assumes "jni_fate w = []" and "self \<noteq> None" and "status (fst (next_reply w)) = UC_ERR_OK"
  shows "fst R = Some ((if rcb = None then [] else [p]) @ (if wcb = None then [] else [q]))"
    and "rcb \<noteq> None \<longrightarrow> heap (snd R) p = Some hr"
    and "wcb \<noteq> None \<longrightarrow> heap (snd R) q = Some hw"
    and "last (trace (snd R)) =
           Native (Uc_mmio_map (if rcb = None then None else Some cb_mmio_read_p)
                               (if rcb = None then None else Some p)
                               (if wcb = None then None else Some cb_mmio_write_p)
                               (if wcb = None then None else Some q)) UC_ERR_OK"
proof -
  let ?A = "makeHookWrapper self rcb rud ''read'' sig_MmioReadHandler w"
  have cA: "jni_fate (snd ?A) = []" using makeHookWrapper_calm [OF assms(6)] by simp
  note sA = makeHookWrapper_success [OF assms(6) assms(7), of rcb rud "''read''" sig_MmioReadHandler]
  note sBw = makeHookWrapper_success [OF assms(6) assms(7), of wcb wud "''write''" sig_MmioWriteHandler]
  note sBA = makeHookWrapper_success [OF cA assms(7), of wcb wud "''write''" sig_MmioWriteHandler]
  note cB = makeHookWrapper_calm [OF cA, of self wcb wud "''write''" sig_MmioWriteHandler]
    makeHookWrapper_calm [OF assms(6), of self wcb wud "''write''" sig_MmioWriteHandler]
  show "fst R = Some ((if rcb = None then [] else [p]) @ (if wcb = None then [] else [q]))"
    and "rcb \<noteq> None \<longrightarrow> heap (snd R) p = Some hr"
    and "wcb \<noteq> None \<longrightarrow> heap (snd R) q = Some hw"
    and "last (trace (snd R)) =
           Native (Uc_mmio_map (if rcb = None then None else Some cb_mmio_read_p)
                               (if rcb = None then None else Some p)
                               (if wcb = None then None else Some cb_mmio_write_p)
                               (if wcb = None then None else Some q)) UC_ERR_OK"
    unfolding R_def p_def hr_def q_def hw_def Unicorn_mmio_map_def
    using assms(6,8) cA sA sBw sBA cB
    by (cases rcb; cases wcb;
        simp add: unpair uc_call_fst uc_call_status next_reply_status env_ok_fst)+
qed

text \<open>
  C3. \<^verbatim>\<open>_mmio_map\<close> is all or nothing. When the JVM and libc serve every request, the
  engine facade is not \<^verbatim>\<open>NULL\<close> and the engine accepts, the call returns the handles
  of fresh records, one per present target and in the order read, write; each record
  holds the method resolved for its own handler and a reference to its own user data,
  and the call's last act hands the engine the two trampolines with their records.
  Whenever the call returns \<^verbatim>\<open>NULL\<close>, every reference created during the call has been
  deleted exactly once, every record allocated during the call has been freed exactly
  once and is gone from the heap, the rest of the heap is as before, and nothing
  faulted. Whenever it returns an array, the array holds the records allocated during
  the call: one per present target, distinct and live, with nothing released and the
  engine's status OK. A non-OK status of the engine makes the call return \<^verbatim>\<open>NULL\<close>.
\<close>

theorem mmio_map_all_or_nothing:
  fixes self uc address sz rcb rud wcb wud w
  defines "R \<equiv> Unicorn_mmio_map self uc address sz rcb rud wcb wud w"
  defines "es \<equiv> new_events w (snd R)"
  defines "p \<equiv> Suc (brk w)"
  defines "hr \<equiv> made ''read'' sig_MmioReadHandler (next_gref w) rud"
  defines "q \<equiv> (if rcb = None then p else Suc p)"
  defines "hw \<equiv> made ''write'' sig_MmioWriteHandler
                  (if rcb = None then next_gref w else next_gref w + length (held hr)) wud"
  shows
   "(jni_fate w = [] \<and> self \<noteq> None \<and> status (fst (next_reply w)) = UC_ERR_OK \<longrightarrow>
       fst R = Some ((if rcb = None then [] else [p]) @ (if wcb = None then [] else [q])) \<and>
       (rcb \<noteq> None \<longrightarrow> heap (snd R) p = Some hr) \<and>
       (wcb \<noteq> None \<longrightarrow> heap (snd R) q = Some hw) \<and>
       last (trace (snd R)) =
         Native (Uc_mmio_map (if rcb = None then None else Some cb_mmio_read_p)
                             (if rcb = None then None else Some p)
                             (if wcb = None then None else Some cb_mmio_write_p)
                             (if wcb = None then None else Some q)) UC_ERR_OK) \<and>
    (fst R = None \<longrightarrow>
       distinct (refs_created es) \<and> distinct (refs_deleted es) \<and>
       set (refs_deleted es) = set (refs_created es) \<and>
       distinct (allocated es) \<and> distinct (freed es) \<and> set (freed es) = set (allocated es) \<and>
       (\<forall>q\<in>set (allocated es). heap (snd R) q = None) \<and>
       (\<forall>q. q \<notin> set (allocated es) \<longrightarrow> heap (snd R) q = heap w q) \<and>
       Fault \<notin> set es) \<and>
    (\<forall>hs. fst R = Some hs \<longrightarrow>
       hs = allocated es \<and> distinct hs \<and>
       length hs = (if rcb = None then 0 else 1) + (if wcb = None then 0 else 1) \<and>
       (\<forall>q\<in>set hs. heap (snd R) q \<noteq> None) \<and>
       refs_deleted es = [] \<and> freed es = [] \<and> checked_statuses es = [UC_ERR_OK]) \<and>
    (\<forall>f st. Native f st \<in> set es \<and> st \<noteq> UC_ERR_OK \<longrightarrow> fst R = None)"
proof -
  note acc = mmio_map_accepts [where self = self and uc = uc and address = address and sz = sz
      and rcb = rcb and rud = rud and wcb = wcb and wud = wud and w = w]
  note unw = mmio_map_unwinds [where self = self and uc = uc and address = address and sz = sz
      and rcb = rcb and rud = rud and wcb = wcb and wud = wud and w = w]
  show ?thesis
    unfolding es_def hw_def q_def hr_def p_def R_def
    by (rule conjI [OF _ unw]) (rule impI, elim conjE, intro conjI; rule acc; assumption)
qed

lemmas eval_defs =
  makeHookWrapper_def calloc_def NewGlobalRef_def GetObjectClass_def GetMethodID_def env_ok_def
  store_def zeroed_def uc_hook_add_def uc_call_def next_reply_def ok_reply_def NewArray_def
  throwOutOfMemoryError_def throwUnicornException_def ThrowNew_def deleteHookWrapper_def free_def
  DeleteGlobalRef_def log_def jvm_raise_def mmio_fail_def Let_def

theorem mmio_map_all_or_nothing_witness:
  "fst (Unicorn_mmio_map (Some 1) 0 4096 4096 (Some 2) None (Some 3) None
         (w0\<lparr>uc_fate := [ok_reply\<lparr>status := UC_ERR_OTHER 1\<rparr>]\<rparr>)) = None \<and>
   new_events (w0\<lparr>uc_fate := [ok_reply\<lparr>status := UC_ERR_OTHER 1\<rparr>]\<rparr>)
     (snd (Unicorn_mmio_map (Some 1) 0 4096 4096 (Some 2) None (Some 3) None
         (w0\<lparr>uc_fate := [ok_reply\<lparr>status := UC_ERR_OTHER 1\<rparr>]\<rparr>))) =
     [Allocated 1, RefCreated 0, RefCreated 1, Allocated 2, RefCreated 2, RefCreated 3,
      Native (Uc_mmio_map (Some cb_mmio_read_p) (Some 1) (Some cb_mmio_write_p) (Some 2)) (UC_ERR_OTHER 1),
      Thrown (UnicornException ''Unknown error code''),
      RefDeleted 0, RefDeleted 1, Freed 1, RefDeleted 2, RefDeleted 3, Freed 2] \<and>
   heap (snd (Unicorn_mmio_map (Some 1) 0 4096 4096 (Some 2) None (Some 3) None
         (w0\<lparr>uc_fate := [ok_reply\<lparr>status := UC_ERR_OTHER 1\<rparr>]\<rparr>))) 1 = None \<and>
   fst (Unicorn_mmio_map (Some 1) 0 4096 4096 (Some 2) (Some 7) (Some 3) (Some 8) w0) = Some [1, 2] \<and>
   heap (snd (Unicorn_mmio_map (Some 1) 0 4096 4096 (Some 2) (Some 7) (Some 3) (Some 8) w0)) 1 =
     Some \<lparr>uc_hh = 0, unicorn = Some 0, hook_obj = Some 1,
            hook_meth = Some (''read'', sig_MmioReadHandler), user_data = Some 2\<rparr> \<and>
   heap (snd (Unicorn_mmio_map (Some 1) 0 4096 4096 (Some 2) (Some 7) (Some 3) (Some 8) w0)) 2 =
     Some \<lparr>uc_hh = 0, unicorn = Some 3, hook_obj = Some 4,
            hook_meth = Some (''write'', sig_MmioWriteHandler), user_data = Some 5\<rparr>"
proof -
  let ?w = "w0\<lparr>uc_fate := [ok_reply\<lparr>status := UC_ERR_OTHER 1\<rparr>]\<rparr>"
  have f: "fst (Unicorn_mmio_map (Some 1) 0 4096 4096 (Some 2) None (Some 3) None ?w) = None"
    by (simp add: Unicorn_mmio_map_def eval_defs w0_def)
  have t: "trace (snd (Unicorn_mmio_map (Some 1) 0 4096 4096 (Some 2) None (Some 3) None ?w)) =
     [Allocated 1, RefCreated 0, RefCreated 1, Allocated 2, RefCreated 2, RefCreated 3,
      Native (Uc_mmio_map (Some cb_mmio_read_p) (Some 1) (Some cb_mmio_write_p) (Some 2)) (UC_ERR_OTHER 1),
      Thrown (UnicornException ''Unknown error code''),
      RefDeleted 0, RefDeleted 1, Freed 1, RefDeleted 2, RefDeleted 3, Freed 2]"
    by (simp add: Unicorn_mmio_map_def eval_defs w0_def sample_strerror_def)
  have s: "fst (Unicorn_mmio_map (Some 1) 0 4096 4096 (Some 2) (Some 7) (Some 3) (Some 8) w0) = Some [1, 2]"
    by (simp add: Unicorn_mmio_map_def eval_defs w0_def)
  have h1: "heap (snd (Unicorn_mmio_map (Some 1) 0 4096 4096 (Some 2) (Some 7) (Some 3) (Some 8) w0)) 1 =
     Some \<lparr>uc_hh = 0, unicorn = Some 0, hook_obj = Some 1,
            hook_meth = Some (''read'', sig_MmioReadHandler), user_data = Some 2\<rparr>"
    by (simp add: Unicorn_mmio_map_def eval_defs w0_def)
  have h2: "heap (snd (Unicorn_mmio_map (Some 1) 0 4096 4096 (Some 2) (Some 7) (Some 3) (Some 8) w0)) 2 =
     Some \<lparr>uc_hh = 0, unicorn = Some 3, hook_obj = Some 4,
            hook_meth = Some (''write'', sig_MmioWriteHandler), user_data = Some 5\<rparr>"
    by (simp add: Unicorn_mmio_map_def eval_defs w0_def)
  show ?thesis
    using mmio_map_all_or_nothing [where self = "Some 1" and uc = 0 and address = 4096 and sz = 4096
        and rcb = "Some 2" and rud = None and wcb = "Some 3" and wud = None and w = ?w]
      mmio_map_all_or_nothing [where self = "Some 1" and uc = 0 and address = 4096 and sz = 4096
        and rcb = "Some 2" and rud = "Some 7" and wcb = "Some 3" and wud = "Some 8" and w = w0]
      f t s h1 h2
    by (simp add: new_events_def)
qed

section \<open>Every bound status is tested\<close>

lemma unicorn_thrown_simps [simp]:
  "unicorn_thrown [] = []"
  "unicorn_thrown (xs @ ys) = unicorn_thrown xs @ unicorn_thrown ys"
  "unicorn_thrown (e # es) =
     (case e of Thrown (UnicornException m) \<Rightarrow> [m] | _ \<Rightarrow> []) @ unicorn_thrown es"
  "unicorn_thrown (map RefDeleted rs) = []"
  "unicorn_thrown (map RefCreated rs) = []"
  by (simp_all add: unicorn_thrown_def map_filter_append List.map_filter_simps
      List.map_filter_def split: event.splits jthrowable.splits)




































































































text \<open>A call can return with an exception pending although every status it tested is
  OK: a callback run inside \<^verbatim>\<open>uc_emu_start\<close> threw, \<open>hookErrorCheck\<close> asked the engine
  to stop, and the engine answered \<^verbatim>\<open>UC_ERR_OK\<close>. \<^verbatim>\<open>_emu_start\<close> throws nothing
  itself and returns with the callback's exception pending.\<close>

lemma emu_start_ok_host_exception:
  "checked_statuses (new_events (w0\<lparr>uc_fate := [ok_reply\<lparr>hook_thrown := Some (HostThrowable 1)\<rparr>]\<rparr>)
      (run H0 I0 (J_emu_start 0 4096 8192 0 0)
         (w0\<lparr>uc_fate := [ok_reply\<lparr>hook_thrown := Some (HostThrowable 1)\<rparr>]\<rparr>))) = [UC_ERR_OK] \<and>
   unicorn_thrown (new_events (w0\<lparr>uc_fate := [ok_reply\<lparr>hook_thrown := Some (HostThrowable 1)\<rparr>]\<rparr>)
      (run H0 I0 (J_emu_start 0 4096 8192 0 0)
         (w0\<lparr>uc_fate := [ok_reply\<lparr>hook_thrown := Some (HostThrowable 1)\<rparr>]\<rparr>))) = [] \<and>
   pending (run H0 I0 (J_emu_start 0 4096 8192 0 0)
         (w0\<lparr>uc_fate := [ok_reply\<lparr>hook_thrown := Some (HostThrowable 1)\<rparr>]\<rparr>)) =
     Some (HostThrowable 1)"
  by (simp add: Unicorn_emu_start_def eval_defs w0_def new_events_def dropped_def)

text \<open>The engine's count is cast to \<^verbatim>\<open>jsize\<close> for the length of the array
  \<^verbatim>\<open>_ctl_get_exits\<close> returns: a count of \<open>2\<^sup>3\<^sup>1\<close> is a negative length, the JVM refuses
  it, and the call returns \<^verbatim>\<open>NULL\<close> with the JVM's exception pending after an OK
  status.\<close>

lemma ctl_get_exits_negative_length:
  "fst (Unicorn_ctl_get_exits 0 (w0\<lparr>uc_fate := [ok_reply\<lparr>out_val := 2147483648\<rparr>]\<rparr>)) = None \<and>
   pending (snd (Unicorn_ctl_get_exits 0 (w0\<lparr>uc_fate := [ok_reply\<lparr>out_val := 2147483648\<rparr>]\<rparr>))) =
     Some NegativeArraySizeException \<and>
   trace (snd (Unicorn_ctl_get_exits 0 (w0\<lparr>uc_fate := [ok_reply\<lparr>out_val := 2147483648\<rparr>]\<rparr>))) =
     [Native (Uc ''uc_ctl_get_exits_cnt'') UC_ERR_OK]"
  by (simp add: Unicorn_ctl_get_exits_def NewArray_jsize_def eval_defs w0_def word_sless_alt)

section \<open>Arrays passed as a data source\<close>

text \<open>
  C10. \<^verbatim>\<open>_reg_write_bytes\<close>, \<^verbatim>\<open>_mem_write\<close> and \<^verbatim>\<open>_ctl_set_exits\<close> leave every
  Java array as it was, in every world, so whether the engine's status is OK or not and
  whether the JVM hands out the elements or not: they release the elements with
  \<^verbatim>\<open>JNI_ABORT\<close>, and a release in that mode copies nothing back whatever the buffer
  holds.
\<close>

theorem write_calls_leave_arrays:
  "byte_arrays (Unicorn_reg_write_bytes ptr isContext regid data w) = byte_arrays w \<and>
   long_arrays (Unicorn_reg_write_bytes ptr isContext regid data w) = long_arrays w \<and>
   byte_arrays (Unicorn_mem_write uc address src w) = byte_arrays w \<and>
   long_arrays (Unicorn_mem_write uc address src w) = long_arrays w \<and>
   byte_arrays (Unicorn_ctl_set_exits uc exits w) = byte_arrays w \<and>
   long_arrays (Unicorn_ctl_set_exits uc exits w) = long_arrays w \<and>
   byte_arrays (ReleaseByteArrayElements data buf JNI_ABORT w) = byte_arrays w \<and>
   long_arrays (ReleaseLongArrayElements exits lbuf JNI_ABORT w) = long_arrays w"
  by (simp add: Unicorn_reg_write_bytes_def Unicorn_mem_write_def Unicorn_ctl_set_exits_def
      generic_reg_write_def GetByteArrayElements_def GetLongArrayElements_def
      ReleaseByteArrayElements_def ReleaseLongArrayElements_def unpair throw_fields
      split: option.splits)

end
